theory Spec2Isabelle
  imports Main
begin

chapter \<open>The embedding\<close>

section \<open>Go values\<close>

text \<open>
  A Go \<^verbatim>\<open>error\<close> is known here by the text its \<^verbatim>\<open>Error()\<close> method returns; the
  nil error is \<open>None\<close> of \<open>error option\<close>.
\<close>

datatype error = Error (Error_text: string)

text \<open>
  The run-time panics that the statements of the sources can raise by themselves: a
  method called through a nil pointer or a nil interface, an entry assigned in a nil map,
  a closed channel closed again, a wait group counted below zero.
\<close>

datatype panic =
  NilDereference | NilMapAssignment | CloseOfClosedChannel | NegativeWaitGroupCounter


text \<open>Values that the program only hands on: they are opaque here.\<close>

typedecl rsp
typedecl CallOption
typedecl CallOptions
typedecl PublishOption
typedecl client_Stream

section \<open>Package jaeger: the tracing wrappers\<close>

subsection \<open>The collaborators: metadata, spans, tracers, contexts\<close>

text \<open>\<^verbatim>\<open>metadata.Metadata\<close> is a \<^verbatim>\<open>map[string]string\<close>.\<close>

type_synonym Metadata = "string \<rightharpoonup> string"

datatype tag_value = TagBool bool | TagString string

datatype 'c StartSpanOption = ChildOf 'c

text \<open>
  The opentracing interfaces are records of their methods. \<open>'c\<close> is the type of span
  contexts, \<open>'s\<close> the state of everything a call can change (the spans a tracer
  collects, the response a handler fills in, ...): a method with an effect takes the
  state and returns the new one.

  \<^verbatim>\<open>Inject(sc, TextMap, carrier)\<close> fails or writes entries into the carrier; the wrappers
  always hand it a fresh map, so its result is the error or the entries the map holds
  afterwards, in the order in which a \<^verbatim>\<open>range\<close> loop visits them (Go does not fix that
  order: any list is possible). \<^verbatim>\<open>Extract(TextMap, carrier)\<close> reads the carrier.
\<close>

record 'c Propagation =
  tr_Inject :: "'c \<Rightarrow> error + (string \<times> string) list"
  tr_Extract :: "Metadata \<Rightarrow> error + 'c"

text \<open>
  \<open>sp_Tracer\<close> is \<^verbatim>\<open>Span.Tracer()\<close>, the tracer that made the span, with the methods
  that the program calls through a span.
\<close>

record ('s, 'c) Span =
  sp_Context :: 'c
  sp_Tracer :: "'c Propagation"
  sp_Finish :: "'s \<Rightarrow> 's"
  sp_LogFields :: "(string \<times> string) list \<Rightarrow> 's \<Rightarrow> 's"
  sp_SetTag :: "string \<Rightarrow> tag_value \<Rightarrow> 's \<Rightarrow> 's"

record ('s, 'c) Tracer = "'c Propagation" +
  tr_StartSpan :: "string \<Rightarrow> 'c StartSpanOption list \<Rightarrow> 's \<Rightarrow> ('s, 'c) Span \<times> 's"

text \<open>
  A \<^verbatim>\<open>context.Context\<close> with the values the program looks up in it: the active span
  (opentracing), the metadata (package metadata) and the wait group stored under the key
  \<^verbatim>\<open>"wait"\<close> (server option \<^verbatim>\<open>Wait\<close>). A \<^verbatim>\<open>sync.WaitGroup\<close> is its counter.
\<close>

type_synonym WaitGroup = nat

record ('s, 'c) Context =
  ctx_span :: "('s, 'c) Span option"
  ctx_md :: "Metadata option"
  ctx_wait :: "WaitGroup option"

definition Background :: "('s, 'c) Context" where
  "Background = \<lparr>ctx_span = None, ctx_md = None, ctx_wait = None\<rparr>"

definition SpanFromContext :: "('s, 'c) Context \<Rightarrow> ('s, 'c) Span option" where
  "SpanFromContext ctx = ctx_span ctx"

definition ContextWithSpan :: "('s, 'c) Context \<Rightarrow> ('s, 'c) Span \<Rightarrow> ('s, 'c) Context" where
  "ContextWithSpan ctx sp = ctx\<lparr>ctx_span := Some sp\<rparr>"

text \<open>
  Modelled from the spec: package metadata is not among the sources. The call's metadata
  travels in the context (4.3: a wrapper "injects updated propagation metadata back into
  the outbound call's metadata"); \<open>FromContext\<close> is the pair \<^verbatim>\<open>(md, ok)\<close> as an option.
  Maps are values here: whether \<^verbatim>\<open>FromContext\<close> hands out the context's own map, so that
  a later \<^verbatim>\<open>Set\<close> also shows in the caller's context, is not followed.
\<close>

definition FromContext :: "('s, 'c) Context \<Rightarrow> Metadata option" where
  "FromContext ctx = ctx_md ctx"

definition NewContext :: "('s, 'c) Context \<Rightarrow> Metadata \<Rightarrow> ('s, 'c) Context" where
  "NewContext ctx md = ctx\<lparr>ctx_md := Some md\<rparr>"

definition md_Set :: "Metadata \<Rightarrow> string \<Rightarrow> string \<Rightarrow> Metadata" where
  "md_Set md k v = md(k \<mapsto> v)"

subsection \<open>strings.Title\<close>

text \<open>
  \<^verbatim>\<open>strings.Title\<close> maps the first letter of every word to title case; a word starts
  after a separator, and the string starts after one. The model is Go's on ASCII text:
  a byte above \<open>0x7F\<close> is kept and separates nothing.
\<close>

definition isSeparator :: "char \<Rightarrow> bool" where
  "isSeparator r =
     (let n = (of_char r :: nat) in
      if n \<le> 0x7F then
        \<not> ((0x30 \<le> n \<and> n \<le> 0x39) \<or> (0x61 \<le> n \<and> n \<le> 0x7A)
           \<or> (0x41 \<le> n \<and> n \<le> 0x5A) \<or> n = 0x5F)
      else False)"

definition ToTitle :: "char \<Rightarrow> char" where
  "ToTitle r =
     (let n = (of_char r :: nat) in
      if 0x61 \<le> n \<and> n \<le> 0x7A then char_of (n - 0x20) else r)"

fun Title_from :: "char \<Rightarrow> string \<Rightarrow> string" where
  "Title_from prev [] = []"
| "Title_from prev (r # rs) =
     (if isSeparator prev then ToTitle r else r) # Title_from r rs"

definition Title :: "string \<Rightarrow> string" where
  "Title s = Title_from (CHR '' '') s"

subsection \<open>StartSpanFromContext\<close>

definition StartSpanFromContext ::
  "('s, 'c) Context \<Rightarrow> ('s, 'c) Tracer \<Rightarrow> string \<Rightarrow> 'c StartSpanOption list \<Rightarrow> 's
   \<Rightarrow> (error + ('s, 'c) Context \<times> ('s, 'c) Span) \<times> 's" where
  "StartSpanFromContext ctx tracer name opts s =
     (let md = (case FromContext ctx of Some m \<Rightarrow> m | None \<Rightarrow> Map.empty);
          opts' =
            (case SpanFromContext ctx of
               Some parentSpan \<Rightarrow> opts @ [ChildOf (sp_Context parentSpan)]
             | None \<Rightarrow>
                (case tr_Extract tracer md of
                   Inr spanCtx \<Rightarrow> opts @ [ChildOf spanCtx]
                 | Inl err \<Rightarrow> opts));
          (sp, s1) = tr_StartSpan tracer name opts' s
      in case tr_Inject (sp_Tracer sp) (sp_Context sp) of
           Inl err \<Rightarrow> (Inl err, s1)
         | Inr nmd \<Rightarrow>
             (let md' = fold (\<lambda>(k, v) m. md_Set m (Title k) v) nmd md;
                  ctx1 = ContextWithSpan ctx sp;
                  ctx2 = NewContext ctx1 md'
              in (Inr (ctx2, sp), s1)))"

subsection \<open>The client wrapper\<close>

record client_Request =
  req_Service :: string
  req_Endpoint :: string

record client_Message =
  msg_Topic :: string

text \<open>
  \<^verbatim>\<open>client.Client\<close>, with the three methods that \<^verbatim>\<open>otWrapper\<close> overrides. The response
  \<^verbatim>\<open>rsp\<close> is a pointer: what a call writes through it is part of the state.
\<close>

record ('s, 'c) Client =
  cl_Call :: "('s, 'c) Context \<Rightarrow> client_Request \<Rightarrow> rsp \<Rightarrow> CallOption list \<Rightarrow> 's
              \<Rightarrow> error option \<times> 's"
  cl_Stream :: "('s, 'c) Context \<Rightarrow> client_Request \<Rightarrow> CallOption list \<Rightarrow> 's
                \<Rightarrow> (client_Stream option \<times> error option) \<times> 's"
  cl_Publish :: "('s, 'c) Context \<Rightarrow> client_Message \<Rightarrow> PublishOption list \<Rightarrow> 's
                 \<Rightarrow> error option \<times> 's"

record ('s, 'c) otWrapper =
  ot :: "('s, 'c) Tracer"
  ot_Client :: "('s, 'c) Client"

text \<open>
  What the three methods and the three function wrappers do once the span is there:
  \<^verbatim>\<open>span.LogFields(String("error", err.Error())); span.SetTag("error", true)\<close> when the
  call failed, and the deferred \<^verbatim>\<open>span.Finish()\<close> on the way out.
\<close>

definition span_failed :: "('s, 'c) Span \<Rightarrow> error \<Rightarrow> 's \<Rightarrow> 's" where
  "span_failed span err s =
     sp_SetTag span ''error'' (TagBool True)
       (sp_LogFields span [(''error'', Error_text err)] s)"

text \<open>\<^verbatim>\<open>ext.SpanKindRPCClient.Set(span)\<close> and its siblings set the tag \<^verbatim>\<open>span.kind\<close>.\<close>

definition SpanKind_Set :: "string \<Rightarrow> ('s, 'c) Span \<Rightarrow> 's \<Rightarrow> 's" where
  "SpanKind_Set kind span s = sp_SetTag span ''span.kind'' (TagString kind) s"

definition otWrapper_Call ::
  "('s, 'c) otWrapper \<Rightarrow> ('s, 'c) Context \<Rightarrow> client_Request \<Rightarrow> rsp \<Rightarrow> CallOption list
   \<Rightarrow> 's \<Rightarrow> error option \<times> 's" where
  "otWrapper_Call w ctx req rsp opts s =
     (let name = req_Service req @ ''.'' @ req_Endpoint req in
      case StartSpanFromContext ctx (ot w) name [] s of
        (Inl err, s1) \<Rightarrow> (Some err, s1)
      | (Inr (ctx', span), s1) \<Rightarrow>
          (case cl_Call (ot_Client w) ctx' req rsp opts s1 of
             (Some err, s2) \<Rightarrow> (Some err, sp_Finish span (span_failed span err s2))
           | (None, s2) \<Rightarrow> (None, sp_Finish span s2)))"

definition otWrapper_Stream ::
  "('s, 'c) otWrapper \<Rightarrow> ('s, 'c) Context \<Rightarrow> client_Request \<Rightarrow> CallOption list
   \<Rightarrow> 's \<Rightarrow> (client_Stream option \<times> error option) \<times> 's" where
  "otWrapper_Stream w ctx req opts s =
     (let name = req_Service req @ ''.'' @ req_Endpoint req in
      case StartSpanFromContext ctx (ot w) name [] s of
        (Inl err, s1) \<Rightarrow> ((None, Some err), s1)
      | (Inr (ctx', span), s1) \<Rightarrow>
          (case cl_Stream (ot_Client w) ctx' req opts s1 of
             ((stream, Some err), s2) \<Rightarrow>
               ((stream, Some err), sp_Finish span (span_failed span err s2))
           | ((stream, None), s2) \<Rightarrow> ((stream, None), sp_Finish span s2)))"

definition otWrapper_Publish ::
  "('s, 'c) otWrapper \<Rightarrow> ('s, 'c) Context \<Rightarrow> client_Message \<Rightarrow> PublishOption list
   \<Rightarrow> 's \<Rightarrow> error option \<times> 's" where
  "otWrapper_Publish w ctx p opts s =
     (let name = ''Pub to '' @ msg_Topic p in
      case StartSpanFromContext ctx (ot w) name [] s of
        (Inl err, s1) \<Rightarrow> (Some err, s1)
      | (Inr (ctx', span), s1) \<Rightarrow>
          (let s1' = SpanKind_Set ''producer'' span s1 in
           case cl_Publish (ot_Client w) ctx' p opts s1' of
             (Some err, s2) \<Rightarrow> (Some err, sp_Finish span (span_failed span err s2))
           | (None, s2) \<Rightarrow> (None, sp_Finish span s2)))"

text \<open>
  The constructors take the tracer as a pointer that may be nil (\<open>None\<close>) and fall back
  on \<^verbatim>\<open>opentracing.GlobalTracer()\<close>; \<open>gt\<close> is the tracer that call returns.
\<close>

definition NewClientWrapper ::
  "('s, 'c) Tracer \<Rightarrow> ('s, 'c) Tracer option \<Rightarrow> ('s, 'c) Client \<Rightarrow> ('s, 'c) Client" where
  "NewClientWrapper gt ot0 c =
     (let w = \<lparr>ot = (case ot0 of None \<Rightarrow> gt | Some t \<Rightarrow> t), ot_Client = c\<rparr>
      in \<lparr>cl_Call = otWrapper_Call w, cl_Stream = otWrapper_Stream w,
          cl_Publish = otWrapper_Publish w\<rparr>)"

subsection \<open>The call, handler and subscriber wrappers\<close>

record server_Request =
  sreq_Service :: string
  sreq_Endpoint :: string

record server_Message =
  smsg_Topic :: string

type_synonym ('s, 'c) CallFunc =
  "('s, 'c) Context \<Rightarrow> string \<Rightarrow> client_Request \<Rightarrow> rsp \<Rightarrow> CallOptions \<Rightarrow> 's
   \<Rightarrow> error option \<times> 's"

type_synonym ('s, 'c) HandlerFunc =
  "('s, 'c) Context \<Rightarrow> server_Request \<Rightarrow> rsp \<Rightarrow> 's \<Rightarrow> error option \<times> 's"

type_synonym ('s, 'c) SubscriberFunc =
  "('s, 'c) Context \<Rightarrow> server_Message \<Rightarrow> 's \<Rightarrow> error option \<times> 's"

type_synonym ('s, 'c) HandlerWrapper = "('s, 'c) HandlerFunc \<Rightarrow> ('s, 'c) HandlerFunc"

type_synonym ('s, 'c) SubscriberWrapper =
  "('s, 'c) SubscriberFunc \<Rightarrow> ('s, 'c) SubscriberFunc"

definition NewCallWrapper ::
  "('s, 'c) Tracer \<Rightarrow> ('s, 'c) Tracer option \<Rightarrow> ('s, 'c) CallFunc \<Rightarrow> ('s, 'c) CallFunc" where
  "NewCallWrapper gt ot0 cf = (\<lambda>ctx addr req rsp opts s.
     let ot' = (case ot0 of None \<Rightarrow> gt | Some t \<Rightarrow> t);
         name = req_Service req @ ''.'' @ req_Endpoint req
     in case StartSpanFromContext ctx ot' name [] s of
          (Inl err, s1) \<Rightarrow> (Some err, s1)
        | (Inr (ctx', span), s1) \<Rightarrow>
            (let s1' = SpanKind_Set ''client'' span s1 in
             case cf ctx' addr req rsp opts s1' of
               (Some err, s2) \<Rightarrow> (Some err, sp_Finish span (span_failed span err s2))
             | (None, s2) \<Rightarrow> (None, sp_Finish span s2)))"

definition NewHandlerWrapper ::
  "('s, 'c) Tracer \<Rightarrow> ('s, 'c) Tracer option \<Rightarrow> ('s, 'c) HandlerWrapper" where
  "NewHandlerWrapper gt ot0 h = (\<lambda>ctx req rsp s.
     let ot' = (case ot0 of None \<Rightarrow> gt | Some t \<Rightarrow> t);
         name = sreq_Service req @ ''.'' @ sreq_Endpoint req
     in case StartSpanFromContext ctx ot' name [] s of
          (Inl err, s1) \<Rightarrow> (Some err, s1)
        | (Inr (ctx', span), s1) \<Rightarrow>
            (let s1' = SpanKind_Set ''server'' span s1 in
             case h ctx' req rsp s1' of
               (Some err, s2) \<Rightarrow> (Some err, sp_Finish span (span_failed span err s2))
             | (None, s2) \<Rightarrow> (None, sp_Finish span s2)))"

definition NewSubscriberWrapper ::
  "('s, 'c) Tracer \<Rightarrow> ('s, 'c) Tracer option \<Rightarrow> ('s, 'c) SubscriberWrapper" where
  "NewSubscriberWrapper gt ot0 next = (\<lambda>ctx msg s.
     let name = ''Sub from '' @ smsg_Topic msg;
         ot' = (case ot0 of None \<Rightarrow> gt | Some t \<Rightarrow> t)
     in case StartSpanFromContext ctx ot' name [] s of
          (Inl err, s1) \<Rightarrow> (Some err, s1)
        | (Inr (ctx', span), s1) \<Rightarrow>
            (let s1' = SpanKind_Set ''consumer'' span s1 in
             case next ctx' msg s1' of
               (Some err, s2) \<Rightarrow> (Some err, sp_Finish span (span_failed span err s2))
             | (None, s2) \<Rightarrow> (None, sp_Finish span s2)))"

subsection \<open>The registration at package load\<close>

text \<open>
  Modelled from the spec: package component is not among the sources. Section 9 names
  it: "global mutable wrapper registration (originally achieved via package-level
  side-effect registration)". It is a registry of wrappers by key, one for the server's
  handler wrappers and one for the client's; \<^verbatim>\<open>SetServerWrapper\<close> and
  \<^verbatim>\<open>SetClientWrapper\<close> store an entry.
\<close>

record ('s, 'c) component =
  serverWrappers :: "string \<rightharpoonup> ('s, 'c) HandlerWrapper"
  clientWrappers :: "string \<rightharpoonup> (('s, 'c) Client \<Rightarrow> ('s, 'c) Client)"

definition SetServerWrapper ::
  "string \<Rightarrow> ('s, 'c) HandlerWrapper \<Rightarrow> ('s, 'c) component \<Rightarrow> ('s, 'c) component" where
  "SetServerWrapper key w g = g\<lparr>serverWrappers := (serverWrappers g)(key \<mapsto> w)\<rparr>"

definition SetClientWrapper ::
  "string \<Rightarrow> (('s, 'c) Client \<Rightarrow> ('s, 'c) Client) \<Rightarrow> ('s, 'c) component
   \<Rightarrow> ('s, 'c) component" where
  "SetClientWrapper key w g = g\<lparr>clientWrappers := (clientWrappers g)(key \<mapsto> w)\<rparr>"

text \<open>
  \<^verbatim>\<open>func init()\<close> of package jaeger, which the Go runtime runs when the package is
  imported. \<open>WrapperTraceKey\<close> is \<^verbatim>\<open>constant.WrapperTraceKey\<close>, whose value the sources
  do not give.
\<close>

definition jaeger_init ::
  "string \<Rightarrow> ('s, 'c) Tracer \<Rightarrow> ('s, 'c) component \<Rightarrow> ('s, 'c) component" where
  "jaeger_init WrapperTraceKey gt g =
     (let g1 = SetServerWrapper WrapperTraceKey (NewHandlerWrapper gt None) g;
          g2 = SetClientWrapper WrapperTraceKey (NewClientWrapper gt None) g1
      in g2)"

section \<open>Package server: the options\<close>

text \<open>The implementations behind the interfaces of an \<^verbatim>\<open>Options\<close> value are opaque.\<close>

typedecl Broker
typedecl Registry
typedecl Trace
typedecl Auth
typedecl Transport
typedecl Router
typedecl tls_Config
typedecl NewCodec

text \<open>
  \<^verbatim>\<open>Options\<close>. An interface, a pointer, a function or a map that may be nil is an
  option; a slice is a list; a \<^verbatim>\<open>time.Duration\<close> is the integer it is.
\<close>

record ('s, 'c) Options =
  opts_Codecs :: "(string \<rightharpoonup> NewCodec) option"
  opts_Broker :: "Broker option"
  opts_Registry :: "Registry option"
  opts_Trace :: "Trace option"
  opts_Auth :: "Auth option"
  opts_Transport :: "Transport option"
  opts_Metadata :: "Metadata option"
  opts_Name :: string
  opts_Address :: string
  opts_Advertise :: string
  opts_Id :: string
  opts_Namespace :: string
  opts_Version :: string
  opts_HdlrWrappers :: "('s, 'c) HandlerWrapper list"
  opts_SubWrappers :: "('s, 'c) SubscriberWrapper list"
  opts_RegisterCheck :: "(('s, 'c) Context \<Rightarrow> error option) option"
  opts_RegisterTTL :: int
  opts_RegisterInterval :: int
  opts_Router :: "Router option"
  opts_TLSConfig :: "tls_Config option"
  opts_Context :: "('s, 'c) Context option"

text \<open>
  \<^verbatim>\<open>type Option func(*Options)\<close>: an option changes the \<^verbatim>\<open>Options\<close> it is given, or
  panics.
\<close>

type_synonym ('s, 'c) Option = "('s, 'c) Options \<Rightarrow> panic + ('s, 'c) Options"

text \<open>
  The package's defaults and the constructors of the in-memory implementations are
  declared outside the sources; they are parameters of the model. A constructor returns
  a new object, which is not nil.
\<close>

record ('s, 'c) Defaults =
  DefaultAddress :: string
  DefaultName :: string
  DefaultId :: string
  DefaultVersion :: string
  DefaultRegisterCheck :: "('s, 'c) Context \<Rightarrow> error option"
  DefaultRegisterInterval :: int
  DefaultRegisterTTL :: int
  mbroker_NewBroker :: Broker
  memory_NewRegistry :: Registry
  tmem_NewTransport :: Transport

text \<open>The loop \<^verbatim>\<open>for _, o := range opt { o(&opts) }\<close>; a panic ends it.\<close>

fun apply_options :: "('s, 'c) Option list \<Rightarrow> ('s, 'c) Options \<Rightarrow> panic + ('s, 'c) Options" where
  "apply_options [] opts = Inr opts"
| "apply_options (f # fs) opts =
     (case f opts of Inl p \<Rightarrow> Inl p | Inr opts' \<Rightarrow> apply_options fs opts')"

definition newOptions ::
  "('s, 'c) Defaults \<Rightarrow> ('s, 'c) Option list \<Rightarrow> panic + ('s, 'c) Options" where
  "newOptions d opt =
     (let opts = \<lparr>opts_Codecs = Some Map.empty, opts_Broker = None, opts_Registry = None,
                  opts_Trace = None, opts_Auth = None, opts_Transport = None,
                  opts_Metadata = Some Map.empty, opts_Name = [], opts_Address = [],
                  opts_Advertise = [], opts_Id = [], opts_Namespace = [], opts_Version = [],
                  opts_HdlrWrappers = [], opts_SubWrappers = [], opts_RegisterCheck = None,
                  opts_RegisterTTL = DefaultRegisterTTL d,
                  opts_RegisterInterval = DefaultRegisterInterval d,
                  opts_Router = None, opts_TLSConfig = None, opts_Context = None\<rparr>
      in case apply_options opt opts of
           Inl p \<Rightarrow> Inl p
         | Inr opts \<Rightarrow>
            (let opts = (if opts_Broker opts = None
                         then opts\<lparr>opts_Broker := Some (mbroker_NewBroker d)\<rparr> else opts);
                 opts = (if opts_Registry opts = None
                         then opts\<lparr>opts_Registry := Some (memory_NewRegistry d)\<rparr> else opts);
                 opts = (if opts_Transport opts = None
                         then opts\<lparr>opts_Transport := Some (tmem_NewTransport d)\<rparr> else opts);
                 opts = (if opts_RegisterCheck opts = None
                         then opts\<lparr>opts_RegisterCheck := Some (DefaultRegisterCheck d)\<rparr>
                         else opts);
                 opts = (if length (opts_Address opts) = 0
                         then opts\<lparr>opts_Address := DefaultAddress d\<rparr> else opts);
                 opts = (if length (opts_Name opts) = 0
                         then opts\<lparr>opts_Name := DefaultName d\<rparr> else opts);
                 opts = (if length (opts_Id opts) = 0
                         then opts\<lparr>opts_Id := DefaultId d\<rparr> else opts);
                 opts = (if length (opts_Version opts) = 0
                         then opts\<lparr>opts_Version := DefaultVersion d\<rparr> else opts)
             in Inr opts))"

text \<open>Package rpc has a \<^verbatim>\<open>newOptions\<close> of its own, on the server package's defaults.\<close>

definition rpc_newOptions ::
  "('s, 'c) Defaults \<Rightarrow> ('s, 'c) Option list \<Rightarrow> panic + ('s, 'c) Options" where
  "rpc_newOptions d opt =
     (let opts = \<lparr>opts_Codecs = Some Map.empty, opts_Broker = None, opts_Registry = None,
                  opts_Trace = None, opts_Auth = None, opts_Transport = None,
                  opts_Metadata = Some Map.empty, opts_Name = [], opts_Address = [],
                  opts_Advertise = [], opts_Id = [], opts_Namespace = [], opts_Version = [],
                  opts_HdlrWrappers = [], opts_SubWrappers = [], opts_RegisterCheck = None,
                  opts_RegisterTTL = DefaultRegisterTTL d,
                  opts_RegisterInterval = DefaultRegisterInterval d,
                  opts_Router = None, opts_TLSConfig = None, opts_Context = None\<rparr>
      in case apply_options opt opts of
           Inl p \<Rightarrow> Inl p
         | Inr opts \<Rightarrow>
            (let opts = (if opts_Broker opts = None
                         then opts\<lparr>opts_Broker := Some (mbroker_NewBroker d)\<rparr> else opts);
                 opts = (if opts_Registry opts = None
                         then opts\<lparr>opts_Registry := Some (memory_NewRegistry d)\<rparr> else opts);
                 opts = (if opts_Transport opts = None
                         then opts\<lparr>opts_Transport := Some (tmem_NewTransport d)\<rparr> else opts);
                 opts = (if opts_RegisterCheck opts = None
                         then opts\<lparr>opts_RegisterCheck := Some (DefaultRegisterCheck d)\<rparr>
                         else opts);
                 opts = (if length (opts_Address opts) = 0
                         then opts\<lparr>opts_Address := DefaultAddress d\<rparr> else opts);
                 opts = (if length (opts_Name opts) = 0
                         then opts\<lparr>opts_Name := DefaultName d\<rparr> else opts);
                 opts = (if length (opts_Id opts) = 0
                         then opts\<lparr>opts_Id := DefaultId d\<rparr> else opts);
                 opts = (if length (opts_Version opts) = 0
                         then opts\<lparr>opts_Version := DefaultVersion d\<rparr> else opts)
             in Inr opts))"

subsection \<open>The option constructors\<close>

definition Name :: "string \<Rightarrow> ('s, 'c) Option" where
  "Name n = (\<lambda>opts. Inr (opts\<lparr>opts_Name := n\<rparr>))"

definition Namespace :: "string \<Rightarrow> ('s, 'c) Option" where
  "Namespace n = (\<lambda>opts. Inr (opts\<lparr>opts_Namespace := n\<rparr>))"

definition Id_option :: "string \<Rightarrow> ('s, 'c) Option" where
  "Id_option i = (\<lambda>opts. Inr (opts\<lparr>opts_Id := i\<rparr>))"

definition Version :: "string \<Rightarrow> ('s, 'c) Option" where
  "Version v = (\<lambda>opts. Inr (opts\<lparr>opts_Version := v\<rparr>))"

definition Address :: "string \<Rightarrow> ('s, 'c) Option" where
  "Address a = (\<lambda>opts. Inr (opts\<lparr>opts_Address := a\<rparr>))"

definition Advertise :: "string \<Rightarrow> ('s, 'c) Option" where
  "Advertise a = (\<lambda>opts. Inr (opts\<lparr>opts_Advertise := a\<rparr>))"

definition Broker :: "Broker option \<Rightarrow> ('s, 'c) Option" where
  "Broker b = (\<lambda>opts. Inr (opts\<lparr>opts_Broker := b\<rparr>))"

definition Codec :: "string \<Rightarrow> NewCodec \<Rightarrow> ('s, 'c) Option" where
  "Codec contentType c = (\<lambda>opts.
     case opts_Codecs opts of
       None \<Rightarrow> Inl NilMapAssignment
     | Some m \<Rightarrow> Inr (opts\<lparr>opts_Codecs := Some (m(contentType \<mapsto> c))\<rparr>))"

definition Context :: "('s, 'c) Context option \<Rightarrow> ('s, 'c) Option" where
  "Context ctx = (\<lambda>opts. Inr (opts\<lparr>opts_Context := ctx\<rparr>))"

definition Registry :: "Registry option \<Rightarrow> ('s, 'c) Option" where
  "Registry r = (\<lambda>opts. Inr (opts\<lparr>opts_Registry := r\<rparr>))"

definition Trace :: "Trace option \<Rightarrow> ('s, 'c) Option" where
  "Trace t = (\<lambda>opts. Inr (opts\<lparr>opts_Trace := t\<rparr>))"

definition Auth :: "Auth option \<Rightarrow> ('s, 'c) Option" where
  "Auth a = (\<lambda>opts. Inr (opts\<lparr>opts_Auth := a\<rparr>))"

definition Transport :: "Transport option \<Rightarrow> ('s, 'c) Option" where
  "Transport t = (\<lambda>opts. Inr (opts\<lparr>opts_Transport := t\<rparr>))"

definition Metadata :: "Metadata option \<Rightarrow> ('s, 'c) Option" where
  "Metadata md = (\<lambda>opts. Inr (opts\<lparr>opts_Metadata := md\<rparr>))"

definition RegisterCheck :: "(('s, 'c) Context \<Rightarrow> error option) option \<Rightarrow> ('s, 'c) Option" where
  "RegisterCheck fn = (\<lambda>opts. Inr (opts\<lparr>opts_RegisterCheck := fn\<rparr>))"

definition RegisterTTL :: "int \<Rightarrow> ('s, 'c) Option" where
  "RegisterTTL t = (\<lambda>opts. Inr (opts\<lparr>opts_RegisterTTL := t\<rparr>))"

definition RegisterInterval :: "int \<Rightarrow> ('s, 'c) Option" where
  "RegisterInterval t = (\<lambda>opts. Inr (opts\<lparr>opts_RegisterInterval := t\<rparr>))"

text \<open>
  \<^verbatim>\<open>TLSConfig\<close> calls \<^verbatim>\<open>o.Transport.Init(...)\<close> with no check (the default that the
  source once set is commented out): on a nil transport the call panics. \<open>Init\<close> is the
  transport's method, which is not among the sources: \<open>Init tr t\<close> is the transport after
  \<^verbatim>\<open>Init(transport.Secure(true), transport.TLSConfig(t))\<close>; the error it returns is dropped.
\<close>

definition TLSConfig ::
  "(Transport \<Rightarrow> tls_Config option \<Rightarrow> Transport) \<Rightarrow> tls_Config option \<Rightarrow> ('s, 'c) Option" where
  "TLSConfig Init t = (\<lambda>opts.
     let opts = opts\<lparr>opts_TLSConfig := t\<rparr> in
     case opts_Transport opts of
       None \<Rightarrow> Inl NilDereference
     | Some tr \<Rightarrow> Inr (opts\<lparr>opts_Transport := Some (Init tr t)\<rparr>))"

definition WithRouter :: "Router option \<Rightarrow> ('s, 'c) Option" where
  "WithRouter r = (\<lambda>opts. Inr (opts\<lparr>opts_Router := r\<rparr>))"

definition Wait :: "WaitGroup option \<Rightarrow> ('s, 'c) Option" where
  "Wait wg = (\<lambda>opts.
     let opts = (if opts_Context opts = None
                 then opts\<lparr>opts_Context := Some Background\<rparr> else opts);
         wg = (case wg of None \<Rightarrow> 0 | Some g \<Rightarrow> g)
     in Inr (opts\<lparr>opts_Context :=
               map_option (\<lambda>ctx. ctx\<lparr>ctx_wait := Some wg\<rparr>) (opts_Context opts)\<rparr>))"

definition WrapHandler :: "('s, 'c) HandlerWrapper \<Rightarrow> ('s, 'c) Option" where
  "WrapHandler w = (\<lambda>opts. Inr (opts\<lparr>opts_HdlrWrappers := opts_HdlrWrappers opts @ [w]\<rparr>))"

definition WrapSubscriber :: "('s, 'c) SubscriberWrapper \<Rightarrow> ('s, 'c) Option" where
  "WrapSubscriber w = (\<lambda>opts. Inr (opts\<lparr>opts_SubWrappers := opts_SubWrappers opts @ [w]\<rparr>))"

subsection \<open>The wrapper chain\<close>

text \<open>
  Modelled from the spec: the server's dispatch, which wraps a handler in
  \<^verbatim>\<open>Options.HdlrWrappers\<close>, is not among the sources. Section 4.3: "wrappers are applied
  in registration order such that the first-registered wrapper is the outermost"; "the
  terminal (innermost) function is [...] the actual user handler body".
\<close>

definition wrapHandlers ::
  "('s, 'c) HandlerWrapper list \<Rightarrow> ('s, 'c) HandlerFunc \<Rightarrow> ('s, 'c) HandlerFunc" where
  "wrapHandlers ws h = foldr (\<lambda>w fn. w fn) ws h"

text \<open>
  A wrapper that can be observed: it records its name with \<open>-pre\<close> before it calls
  \<open>next\<close> and with \<open>-post\<close> after \<open>next\<close> has returned. The state is the record.
\<close>

definition observed :: "string \<Rightarrow> (string list, 'c) HandlerWrapper" where
  "observed nm next = (\<lambda>ctx req rsp s.
     case next ctx req rsp (s @ [nm @ ''-pre'']) of
       (err, s') \<Rightarrow> (err, s' @ [nm @ ''-post'']))"

definition terminal :: "string \<Rightarrow> (string list, 'c) HandlerFunc" where
  "terminal nm = (\<lambda>ctx req rsp s. (None, s @ [nm]))"

section \<open>Package grpc: serving one socket\<close>










section \<open>Package nacos: the dynamic configuration\<close>

subsection \<open>Group names\<close>

text \<open>
  Go's \<^verbatim>\<open>strings.ReplaceAll(s, old, new)\<close> for a non-empty \<open>old\<close>: the occurrences of
  \<open>old\<close> are replaced from left to right and do not overlap. Go strings are byte
  sequences, as \<open>string\<close> is here. (For an empty \<open>old\<close> Go inserts \<open>new\<close> around every
  UTF-8 sequence; the program never calls it so, and the model leaves the string as it is.)
\<close>

function ReplaceAll :: "string \<Rightarrow> string \<Rightarrow> string \<Rightarrow> string" where
  "ReplaceAll [] old new = []"
| "ReplaceAll (c # cs) old new =
     (if old \<noteq> [] \<and> take (length old) (c # cs) = old
      then new @ ReplaceAll (drop (length old) (c # cs)) old new
      else c # ReplaceAll cs old new)"
  by pat_completeness auto
termination
  by (relation "measure (\<lambda>(s, old, new). length s)") (auto simp: neq_Nil_conv)

text \<open>
  \<^verbatim>\<open>func (n *nacosDynamicConfiguration) resolvedGroup(group string) string\<close>: the empty
  group is returned as it is, otherwise every \<open>/\<close> becomes \<open>-\<close>. The receiver is not read.
\<close>

definition resolvedGroup :: "string \<Rightarrow> string" where
  "resolvedGroup grp =
     (if length grp \<le> 0 then grp else ReplaceAll grp ''/'' ''-'')"

subsection \<open>The clients\<close>

text \<open>\<^verbatim>\<open>vo.ConfigParam\<close> of the nacos SDK, with the fields the program sets.\<close>

record ConfigParam =
  DataId :: string
  Group :: string
  Content :: string

text \<open>
  \<^verbatim>\<open>config_client.IConfigClient\<close> of the nacos SDK: \<open>'k\<close> is the state of the
  configuration centre that the calls reach.
\<close>

record 'k IConfigClient =
  sdk_PublishConfig :: "ConfigParam \<Rightarrow> 'k \<Rightarrow> (bool \<times> error option) \<times> 'k"
  sdk_GetConfig :: "ConfigParam \<Rightarrow> 'k \<Rightarrow> (string \<times> error option) \<times> 'k"

text \<open>
  \<^verbatim>\<open>NacosClient\<close>. The channel \<open>exit\<close> is only ever closed, so it is known by whether
  it is closed; \<open>nc_once\<close> is whether the \<^verbatim>\<open>sync.Once\<close> has run. The field
  \<^verbatim>\<open>onceClose\<close> is the function below.
\<close>

record 'k NacosClient =
  nc_name :: string
  NacosAddrs :: "string list"
  nc_client :: "'k IConfigClient option"
  nc_exit :: bool
  Timeout :: int
  nc_once :: bool

definition onceClose :: "'k NacosClient \<Rightarrow> panic + 'k NacosClient" where
  "onceClose n = (if nc_exit n then Inl CloseOfClosedChannel else Inr (n\<lparr>nc_exit := True\<rparr>))"

definition Client :: "'k NacosClient \<Rightarrow> 'k IConfigClient option" where
  "Client n = nc_client n"

definition SetClient :: "'k NacosClient \<Rightarrow> 'k IConfigClient option \<Rightarrow> 'k NacosClient" where
  "SetClient n c = n\<lparr>nc_client := c\<rparr>"

text \<open>
  \<^verbatim>\<open>func (n *NacosClient) stop() bool\<close>: the \<^verbatim>\<open>select\<close> takes the first case when
  \<open>exit\<close> is closed; otherwise \<^verbatim>\<open>n.once.Do(n.onceClose)\<close> runs \<open>onceClose\<close> unless the
  \<^verbatim>\<open>Once\<close> has run before.
\<close>

definition stop :: "'k NacosClient \<Rightarrow> panic + bool \<times> 'k NacosClient" where
  "stop n =
     (if nc_exit n then Inr (True, n)
      else if nc_once n then Inr (False, n)
      else (case onceClose n of
              Inl p \<Rightarrow> Inl p
            | Inr n' \<Rightarrow> Inr (False, n'\<lparr>nc_once := True\<rparr>)))"

definition NacosClientValid :: "'k NacosClient \<Rightarrow> bool" where
  "NacosClientValid n = (if nc_exit n then False else Client n \<noteq> None)"

text \<open>\<^verbatim>\<open>func (n *NacosClient) Close()\<close>, on a receiver that may be nil.\<close>

definition Close :: "'k NacosClient option \<Rightarrow> panic + 'k NacosClient option" where
  "Close n =
     (case n of
        None \<Rightarrow> Inr None
      | Some nc \<Rightarrow>
          (case stop nc of
             Inl p \<Rightarrow> Inl p
           | Inr (b, nc') \<Rightarrow> Inr (Some (SetClient nc' None))))"

subsection \<open>The configuration\<close>

text \<open>
  \<^verbatim>\<open>nacosDynamicConfiguration\<close>, with the fields that the functions below read or
  write: the wait group's counter, the channel \<open>done\<close> (closed or not) and the pointer to
  the client.
\<close>

record 'k nacosDynamicConfiguration =
  rootPath :: string
  ndc_wg :: WaitGroup
  ndc_done :: bool
  ndc_client :: "'k NacosClient option"

text \<open>\<^verbatim>\<open>config.Options\<close> with the field that \<^verbatim>\<open>GetRule\<close> reads.\<close>

record config_Options =
  cfg_Group :: string

text \<open>
  \<^verbatim>\<open>PublishConfig\<close>. \<^verbatim>\<open>(*n.client.Client())\<close> panics when either pointer is nil.
  \<^verbatim>\<open>perrors.WithStack\<close> adds a stack to the error and keeps its text.
\<close>

definition PublishConfig ::
  "'k nacosDynamicConfiguration \<Rightarrow> string \<Rightarrow> string \<Rightarrow> string \<Rightarrow> 'k
   \<Rightarrow> panic + error option \<times> 'k" where
  "PublishConfig n key grp val k =
     (let grp = resolvedGroup grp in
      case ndc_client n of
        None \<Rightarrow> Inl NilDereference
      | Some nc \<Rightarrow>
          (case Client nc of
             None \<Rightarrow> Inl NilDereference
           | Some c \<Rightarrow>
               (case sdk_PublishConfig c \<lparr>DataId = key, Group = grp, Content = val\<rparr> k of
                  ((ok, Some err), k') \<Rightarrow> Inr (Some err, k')
                | ((ok, None), k') \<Rightarrow>
                    if \<not> ok then Inr (Some (Error ''publish config to Nocos failed''), k')
                    else Inr (None, k'))))"

text \<open>
  \<^verbatim>\<open>GetRule\<close>. The parameter's \<^verbatim>\<open>Content\<close> is left at its zero value. The result is
  the pair \<^verbatim>\<open>(string, error)\<close>.
\<close>

definition GetRule ::
  "'k nacosDynamicConfiguration \<Rightarrow> string \<Rightarrow> (config_Options \<Rightarrow> config_Options) list \<Rightarrow> 'k
   \<Rightarrow> panic + (string \<times> error option) \<times> 'k" where
  "GetRule n key opts k =
     (let tmpOpts = fold (\<lambda>opt t. opt t) opts \<lparr>cfg_Group = []\<rparr> in
      case ndc_client n of
        None \<Rightarrow> Inl NilDereference
      | Some nc \<Rightarrow>
          (case Client nc of
             None \<Rightarrow> Inl NilDereference
           | Some c \<Rightarrow>
               (case sdk_GetConfig c
                       \<lparr>DataId = key, Group = resolvedGroup (cfg_Group tmpOpts), Content = []\<rparr> k of
                  ((content, Some err), k') \<Rightarrow> Inr (([], Some err), k')
                | ((content, None), k') \<Rightarrow> Inr ((content, None), k'))))"

definition IsAvailable :: "'k nacosDynamicConfiguration \<Rightarrow> bool" where
  "IsAvailable n = (if ndc_done n then False else True)"

text \<open>
  \<^verbatim>\<open>closeConfigs\<close> detaches the client from the configuration and closes it; the
  result is the configuration and the detached client as \<^verbatim>\<open>Close\<close> leaves it.
\<close>

definition closeConfigs ::
  "'k nacosDynamicConfiguration
   \<Rightarrow> panic + 'k nacosDynamicConfiguration \<times> 'k NacosClient option" where
  "closeConfigs n =
     (let client = ndc_client n;
          n = n\<lparr>ndc_client := None\<rparr>
      in case Close client of
           Inl p \<Rightarrow> Inl p
         | Inr client' \<Rightarrow> Inr (n, client'))"

subsection \<open>Destroy, next to the background task\<close>

text \<open>
  \<^verbatim>\<open>Destroy\<close> is three statements, \<^verbatim>\<open>close(n.done); n.wg.Wait(); n.closeConfigs()\<close>,
  and \<^verbatim>\<open>Wait\<close> blocks while the counter is not zero. It runs next to the task that
  \<^verbatim>\<open>newNacosDynamicConfiguration\<close> started with \<^verbatim>\<open>c.wg.Add(1); go HandleClientRestart(c)\<close>,
  so the model is a transition system: the state holds the configuration, where
  \<^verbatim>\<open>Destroy\<close> stands, whether the task still runs, the client that \<^verbatim>\<open>closeConfigs\<close>
  detached, and the panic that ended the process, if one did.
\<close>

datatype destroy_pc = At_close_done | At_wg_Wait | At_closeConfigs | Destroy_returned

record 'k process =
  p_config :: "'k nacosDynamicConfiguration"
  p_Destroy :: destroy_pc
  p_task_running :: bool
  p_detached :: "'k NacosClient option"
  p_panic :: "panic option"

text \<open>One statement of \<^verbatim>\<open>Destroy\<close>; \<open>None\<close> when it has returned or is blocked.\<close>

definition Destroy_step :: "'k process \<Rightarrow> 'k process option" where
  "Destroy_step p =
     (let n = p_config p in
      case p_Destroy p of
        At_close_done \<Rightarrow>
          (if ndc_done n then Some (p\<lparr>p_panic := Some CloseOfClosedChannel\<rparr>)
           else Some (p\<lparr>p_config := n\<lparr>ndc_done := True\<rparr>, p_Destroy := At_wg_Wait\<rparr>))
      | At_wg_Wait \<Rightarrow>
          (if ndc_wg n = 0 then Some (p\<lparr>p_Destroy := At_closeConfigs\<rparr>) else None)
      | At_closeConfigs \<Rightarrow>
          (case closeConfigs n of
             Inl e \<Rightarrow> Some (p\<lparr>p_panic := Some e\<rparr>)
           | Inr (n', c) \<Rightarrow>
               Some (p\<lparr>p_config := n', p_detached := c, p_Destroy := Destroy_returned\<rparr>))
      | Destroy_returned \<Rightarrow> None)"

text \<open>
  Modelled from the spec: \<^verbatim>\<open>HandleClientRestart\<close> is not among the sources. Section 9:
  the background work for client reconnect is "an explicit task with an owned
  cancellation signal and a join/wait on shutdown". The signal is the channel \<open>done\<close>:
  once it is closed the task ends with \<^verbatim>\<open>wg.Done()\<close>, which panics on a counter of zero.
  Before that the task waits.
\<close>

definition HandleClientRestart_step :: "'k process \<Rightarrow> 'k process option" where
  "HandleClientRestart_step p =
     (let n = p_config p in
      if p_task_running p \<and> ndc_done n then
        (if ndc_wg n = 0 then Some (p\<lparr>p_panic := Some NegativeWaitGroupCounter\<rparr>)
         else Some (p\<lparr>p_config := n\<lparr>ndc_wg := ndc_wg n - 1\<rparr>, p_task_running := False\<rparr>))
      else None)"

text \<open>The scheduler picks either; a process that panicked has stopped.\<close>

definition successors :: "'k process \<Rightarrow> 'k process list" where
  "successors p =
     (if p_panic p \<noteq> None then []
      else (case Destroy_step p of None \<Rightarrow> [] | Some q \<Rightarrow> [q])
         @ (case HandleClientRestart_step p of None \<Rightarrow> [] | Some q \<Rightarrow> [q]))"

inductive reaches :: "'k process \<Rightarrow> 'k process \<Rightarrow> bool" where
  reaches_refl: "reaches p p"
| reaches_step: "reaches p q \<Longrightarrow> r \<in> set (successors q) \<Longrightarrow> reaches p r"

text \<open>
  The process when \<^verbatim>\<open>Destroy\<close> is called on a configuration that
  \<^verbatim>\<open>newNacosDynamicConfiguration\<close> returned: \<open>done\<close> is open, the counter is one for the
  one task, which runs.
\<close>

definition Destroy_called :: "'k nacosDynamicConfiguration \<Rightarrow> 'k process" where
  "Destroy_called n =
     \<lparr>p_config = n\<lparr>ndc_wg := 1, ndc_done := False\<rparr>, p_Destroy = At_close_done,
      p_task_running = True, p_detached = None, p_panic = None\<rparr>"

section \<open>Auxiliary notions for the properties\<close>

subsection \<open>Destroy\<close>

text \<open>
  The statements that \<^verbatim>\<open>Destroy\<close> and the task still have to run: every step of the
  process lowers it.
\<close>

definition remaining :: "'k process \<Rightarrow> nat" where
  "remaining p =
     (case p_Destroy p of At_close_done \<Rightarrow> 3 | At_wg_Wait \<Rightarrow> 2 | At_closeConfigs \<Rightarrow> 1
      | Destroy_returned \<Rightarrow> 0) + (if p_task_running p then 1 else 0)"


text \<open>What holds in every state of a process that started with \<open>Destroy_called n\<close>.\<close>

definition Destroy_inv :: "'k nacosDynamicConfiguration \<Rightarrow> 'k process \<Rightarrow> bool" where
  "Destroy_inv n p =
     (let c = p_config p in
      p_panic p = None \<and>
      (case p_Destroy p of
         At_close_done \<Rightarrow>
           \<not> ndc_done c \<and> ndc_wg c = 1 \<and> p_task_running p \<and> ndc_client c = ndc_client n
       | At_wg_Wait \<Rightarrow>
           ndc_done c \<and> ndc_wg c = (if p_task_running p then 1 else 0)
           \<and> ndc_client c = ndc_client n
       | At_closeConfigs \<Rightarrow>
           ndc_done c \<and> ndc_wg c = 0 \<and> \<not> p_task_running p \<and> ndc_client c = ndc_client n
       | Destroy_returned \<Rightarrow>
           ndc_done c \<and> ndc_wg c = 0 \<and> \<not> p_task_running p \<and> ndc_client c = None
           \<and> Close (ndc_client n) = Inr (p_detached p)))"


text \<open>
  The state in which such a process ends: \<open>done\<close> is closed, the counter is zero, the
  client is detached and closed.
\<close>

definition Destroy_end :: "'k nacosDynamicConfiguration \<Rightarrow> 'k process" where
  "Destroy_end n =
     \<lparr>p_config = n\<lparr>ndc_wg := 0, ndc_done := True, ndc_client := None\<rparr>,
      p_Destroy = Destroy_returned, p_task_running = False,
      p_detached = (case Close (ndc_client n) of Inr c \<Rightarrow> c | Inl e \<Rightarrow> None),
      p_panic = None\<rparr>"

subsection \<open>The tracing wrappers\<close>

text \<open>
  Counting calls: \<open>calls\<close> reads, from the state, how often the wrapped function has
  been called. A span and a tracer frame it when none of their methods changes it.
\<close>

definition span_frames :: "('s \<Rightarrow> nat) \<Rightarrow> ('s, 'c) Span \<Rightarrow> bool" where
  "span_frames calls sp =
     (\<forall>s. calls (sp_Finish sp s) = calls s
        \<and> (\<forall>fs. calls (sp_LogFields sp fs s) = calls s)
        \<and> (\<forall>k v. calls (sp_SetTag sp k v s) = calls s))"

definition tracer_frames :: "('s \<Rightarrow> nat) \<Rightarrow> ('s, 'c) Tracer \<Rightarrow> bool" where
  "tracer_frames calls tr =
     (\<forall>name opts s. calls (snd (tr_StartSpan tr name opts s)) = calls s
        \<and> span_frames calls (fst (tr_StartSpan tr name opts s)))"

text \<open>The tracer that a wrapper built on the pointer \<open>ot0\<close> works with.\<close>

definition tracer_of :: "('s, 'c) Tracer \<Rightarrow> ('s, 'c) Tracer option \<Rightarrow> ('s, 'c) Tracer" where
  "tracer_of gt ot0 = (case ot0 of None \<Rightarrow> gt | Some t \<Rightarrow> t)"

text \<open>The metadata that \<^verbatim>\<open>StartSpanFromContext\<close> starts from.\<close>

definition md_of :: "('s, 'c) Context \<Rightarrow> Metadata" where
  "md_of ctx = (case ctx_md ctx of Some m \<Rightarrow> m | None \<Rightarrow> Map.empty)"

text \<open>
  The options with which \<^verbatim>\<open>StartSpanFromContext\<close> starts the span: the caller's, and
  the parent it found.
\<close>

definition parent_options ::
  "('s, 'c) Context \<Rightarrow> ('s, 'c) Tracer \<Rightarrow> 'c StartSpanOption list \<Rightarrow> 'c StartSpanOption list" where
  "parent_options ctx tr opts =
     (case ctx_span ctx of
        Some p \<Rightarrow> opts @ [ChildOf (sp_Context p)]
      | None \<Rightarrow>
          (case tr_Extract tr (md_of ctx) of
             Inr c \<Rightarrow> opts @ [ChildOf c]
           | Inl e \<Rightarrow> opts))"

text \<open>
  What is left of a wrapper once \<open>next\<close> has returned: the span is marked when \<open>next\<close>
  failed, and finished.
\<close>

definition finish_with :: "('s, 'c) Span \<Rightarrow> error option \<times> 's \<Rightarrow> error option \<times> 's" where
  "finish_with span r =
     (case r of (Some err, s2) \<Rightarrow> (Some err, sp_Finish span (span_failed span err s2))
              | (None, s2) \<Rightarrow> (None, sp_Finish span s2))"

subsection \<open>The options\<close>

text \<open>
  The two halves of \<^verbatim>\<open>newOptions\<close> around its loop: the \<^verbatim>\<open>Options\<close> literal that the
  options are applied to, and the defaults that fill what they left nil or empty.
\<close>

definition Options_literal :: "('s, 'c) Defaults \<Rightarrow> ('s, 'c) Options" where
  "Options_literal d =
     \<lparr>opts_Codecs = Some Map.empty, opts_Broker = None, opts_Registry = None,
      opts_Trace = None, opts_Auth = None, opts_Transport = None,
      opts_Metadata = Some Map.empty, opts_Name = [], opts_Address = [],
      opts_Advertise = [], opts_Id = [], opts_Namespace = [], opts_Version = [],
      opts_HdlrWrappers = [], opts_SubWrappers = [], opts_RegisterCheck = None,
      opts_RegisterTTL = DefaultRegisterTTL d,
      opts_RegisterInterval = DefaultRegisterInterval d,
      opts_Router = None, opts_TLSConfig = None, opts_Context = None\<rparr>"

definition with_defaults :: "('s, 'c) Defaults \<Rightarrow> ('s, 'c) Options \<Rightarrow> ('s, 'c) Options" where
  "with_defaults d opts =
     opts\<lparr>opts_Broker := (case opts_Broker opts of None \<Rightarrow> Some (mbroker_NewBroker d)
                             | Some b \<Rightarrow> Some b),
          opts_Registry := (case opts_Registry opts of None \<Rightarrow> Some (memory_NewRegistry d)
                             | Some r \<Rightarrow> Some r),
          opts_Transport := (case opts_Transport opts of None \<Rightarrow> Some (tmem_NewTransport d)
                             | Some t \<Rightarrow> Some t),
          opts_RegisterCheck := (case opts_RegisterCheck opts of
                                   None \<Rightarrow> Some (DefaultRegisterCheck d)
                                 | Some f \<Rightarrow> Some f),
          opts_Address := (if opts_Address opts = [] then DefaultAddress d else opts_Address opts),
          opts_Name := (if opts_Name opts = [] then DefaultName d else opts_Name opts),
          opts_Id := (if opts_Id opts = [] then DefaultId d else opts_Id opts),
          opts_Version := (if opts_Version opts = [] then DefaultVersion d
                           else opts_Version opts)\<rparr>"

subsection \<open>The socket\<close>




section \<open>Concrete collaborators\<close>

text \<open>
  A configuration centre that records the parameters it is called with, and a
  configuration as \<^verbatim>\<open>newNacosDynamicConfiguration\<close> returns it.
\<close>

definition recording_client :: "(ConfigParam list) IConfigClient" where
  "recording_client =
     \<lparr>sdk_PublishConfig = (\<lambda>p k. ((True, None), k @ [p])),
      sdk_GetConfig = (\<lambda>p k. ((''content'', None), k @ [p]))\<rparr>"

definition example_client :: "(ConfigParam list) NacosClient" where
  "example_client =
     \<lparr>nc_name = ''nacos config'', NacosAddrs = [''127.0.0.1:8848''],
      nc_client = Some recording_client, nc_exit = False, Timeout = 5, nc_once = False\<rparr>"

definition example_config :: "(ConfigParam list) nacosDynamicConfiguration" where
  "example_config =
     \<lparr>rootPath = ''/micro/config'', ndc_wg = 1, ndc_done = False,
      ndc_client = Some example_client\<rparr>"

text \<open>
  A tracer that records what is done with it and with its spans. A span context is the
  name of the span; it travels under the key \<open>uber-trace-id\<close>.
\<close>

datatype event =
    Started string "string StartSpanOption list"
  | Tagged string string tag_value
  | Logged string "(string \<times> string) list"
  | Finished string
  | Called string

definition recording_propagation :: "string Propagation" where
  "recording_propagation =
     \<lparr>tr_Inject = (\<lambda>c. Inr [(''uber-trace-id'', c)]),
      tr_Extract = (\<lambda>md. case md ''Uber-Trace-Id'' of
                            None \<Rightarrow> Inl (Error ''SpanContext not found in Extract carrier'')
                          | Some v \<Rightarrow> Inr v)\<rparr>"

definition failing_propagation :: "string Propagation" where
  "failing_propagation = recording_propagation\<lparr>tr_Inject := (\<lambda>c. Inl (Error ''inject failed''))\<rparr>"

text \<open>A propagation whose \<open>Inject\<close> fails for the span \<open>greeter.Hello\<close> only.\<close>

definition picky_propagation :: "string Propagation" where
  "picky_propagation =
     recording_propagation\<lparr>tr_Inject :=
       (\<lambda>c. if c = ''greeter.Hello'' then Inl (Error ''inject failed'')
            else tr_Inject recording_propagation c)\<rparr>"

definition recording_span :: "string Propagation \<Rightarrow> string \<Rightarrow> (event list, string) Span" where
  "recording_span pr c =
     \<lparr>sp_Context = c, sp_Tracer = pr,
      sp_Finish = (\<lambda>s. s @ [Finished c]),
      sp_LogFields = (\<lambda>fs s. s @ [Logged c fs]),
      sp_SetTag = (\<lambda>k v s. s @ [Tagged c k v])\<rparr>"

definition recording_tracer :: "string Propagation \<Rightarrow> (event list, string) Tracer" where
  "recording_tracer pr =
     \<lparr>tr_Inject = tr_Inject pr, tr_Extract = tr_Extract pr,
      tr_StartSpan = (\<lambda>name opts s. (recording_span pr name, s @ [Started name opts]))\<rparr>"

fun is_Called :: "event \<Rightarrow> bool" where
  "is_Called (Called c) = True"
| "is_Called e = False"

definition count_calls :: "event list \<Rightarrow> nat" where
  "count_calls s = length (filter is_Called s)"

text \<open>
  A handler and a client that record the trace id they find in the metadata of the
  context they are called with, and fail.
\<close>

definition trace_id :: "(event list, string) Context \<Rightarrow> string" where
  "trace_id ctx =
     (case ctx_md ctx of
        None \<Rightarrow> []
      | Some m \<Rightarrow> (case m ''Uber-Trace-Id'' of None \<Rightarrow> [] | Some v \<Rightarrow> v))"

definition failing_handler :: "(event list, string) HandlerFunc" where
  "failing_handler = (\<lambda>ctx req rsp s. (Some (Error ''boom''), s @ [Called (trace_id ctx)]))"

definition failing_client :: "(event list, string) Client" where
  "failing_client =
     \<lparr>cl_Call = (\<lambda>ctx req rsp opts s. (Some (Error ''boom''), s @ [Called (trace_id ctx)])),
      cl_Stream = (\<lambda>ctx req opts s. ((None, Some (Error ''boom'')), s @ [Called (trace_id ctx)])),
      cl_Publish = (\<lambda>ctx p opts s. (Some (Error ''boom''), s @ [Called (trace_id ctx)]))\<rparr>"

text \<open>
  Two contexts: one with a span of this process and wire metadata, one with wire metadata
  only.
\<close>

definition wire_md :: Metadata where
  "wire_md = [''Uber-Trace-Id'' \<mapsto> ''wire'']"

definition ctx_with_span :: "(event list, string) Context" where
  "ctx_with_span =
     \<lparr>ctx_span = Some (recording_span recording_propagation ''parent''),
      ctx_md = Some wire_md, ctx_wait = None\<rparr>"

definition ctx_from_wire :: "(event list, string) Context" where
  "ctx_from_wire = \<lparr>ctx_span = None, ctx_md = Some wire_md, ctx_wait = None\<rparr>"

text \<open>Some defaults (the sources do not give the package's own), and an empty registry.\<close>

definition example_defaults :: "(string list, 'c) Defaults" where
  "example_defaults =
     \<lparr>DefaultAddress = '':0'', DefaultName = ''go.micro.server'', DefaultId = ''1'',
      DefaultVersion = ''latest'', DefaultRegisterCheck = (\<lambda>ctx. None),
      DefaultRegisterInterval = 30, DefaultRegisterTTL = 60,
      mbroker_NewBroker = undefined, memory_NewRegistry = undefined,
      tmem_NewTransport = undefined\<rparr>"

definition empty_component :: "('s, 'c) component" where
  "empty_component = \<lparr>serverWrappers = Map.empty, clientWrappers = Map.empty\<rparr>"







chapter \<open>The properties\<close>

section \<open>Package jaeger\<close>

subsection \<open>The wrappers, unfolded\<close>

lemma StartSpanFromContext_unfold:
  "StartSpanFromContext ctx tr name opts s =
     (let sp = fst (tr_StartSpan tr name (parent_options ctx tr opts) s);
          s1 = snd (tr_StartSpan tr name (parent_options ctx tr opts) s)
      in case tr_Inject (sp_Tracer sp) (sp_Context sp) of
           Inl err \<Rightarrow> (Inl err, s1)
         | Inr nmd \<Rightarrow>
             (Inr (ctx\<lparr>ctx_span := Some sp,
                       ctx_md := Some (fold (\<lambda>(k, v) m. m(Title k \<mapsto> v)) nmd
                          (md_of ctx))\<rparr>, sp), s1))"
  by (cases "ctx_span ctx"; cases "ctx_md ctx"; cases "tr_Extract tr (md_of ctx)")
     (simp_all add: StartSpanFromContext_def parent_options_def md_of_def FromContext_def
        SpanFromContext_def ContextWithSpan_def NewContext_def md_Set_def Let_def
        split: prod.splits sum.splits)

lemma StartSpanFromContext_state:
  "snd (StartSpanFromContext ctx tr name opts s) =
     snd (tr_StartSpan tr name (parent_options ctx tr opts) s)"
  by (simp add: StartSpanFromContext_unfold Let_def split: sum.splits)

lemma StartSpanFromContext_span:
  "StartSpanFromContext ctx tr name opts s = (Inr (ctx', sp), s1) \<Longrightarrow>
     sp = fst (tr_StartSpan tr name (parent_options ctx tr opts) s)"
  by (simp add: StartSpanFromContext_unfold Let_def split: sum.splits)

lemma StartSpanFromContext_frames:
  assumes "tracer_frames calls tr"
  shows "calls (snd (StartSpanFromContext ctx tr name opts s)) = calls s"
    and "StartSpanFromContext ctx tr name opts s = (Inr (ctx', sp), s1) \<Longrightarrow> span_frames calls sp"
proof -
  show "calls (snd (StartSpanFromContext ctx tr name opts s)) = calls s"
    using assms by (simp add: StartSpanFromContext_state tracer_frames_def)
  assume "StartSpanFromContext ctx tr name opts s = (Inr (ctx', sp), s1)"
  then have "sp = fst (tr_StartSpan tr name (parent_options ctx tr opts) s)"
    by (rule StartSpanFromContext_span)
  then show "span_frames calls sp" using assms by (simp add: tracer_frames_def)
qed

lemma span_failed_frames: "span_frames calls sp \<Longrightarrow> calls (span_failed sp e s) = calls s"
  by (simp add: span_frames_def span_failed_def)

lemma SpanKind_Set_frames: "span_frames calls sp \<Longrightarrow> calls (SpanKind_Set k sp s) = calls s"
  by (simp add: span_frames_def SpanKind_Set_def)

lemma sp_Finish_frames: "span_frames calls sp \<Longrightarrow> calls (sp_Finish sp s) = calls s"
  by (simp add: span_frames_def)

lemma finish_with_fst: "fst (finish_with span r) = fst r"
  by (simp add: finish_with_def split: prod.splits option.splits)

lemma finish_with_calls:
  "span_frames calls span \<Longrightarrow> calls (snd (finish_with span r)) = calls (snd r)"
  by (simp add: finish_with_def span_failed_frames sp_Finish_frames split: prod.splits option.splits)

lemma otWrapper_Call_eq:
  "otWrapper_Call w ctx req rsp opts s =
     (case StartSpanFromContext ctx (ot w) (req_Service req @ ''.'' @ req_Endpoint req) [] s of
        (Inl err, s1) \<Rightarrow> (Some err, s1)
      | (Inr (ctx', span), s1) \<Rightarrow>
          finish_with span (cl_Call (ot_Client w) ctx' req rsp opts s1))"
  by (simp add: otWrapper_Call_def finish_with_def Let_def
      split: prod.splits sum.splits option.splits)

lemma NewCallWrapper_eq:
  "NewCallWrapper gt ot0 cf ctx a req rsp opts s =
     (case StartSpanFromContext ctx (tracer_of gt ot0)
             (req_Service req @ ''.'' @ req_Endpoint req) [] s of
        (Inl err, s1) \<Rightarrow> (Some err, s1)
      | (Inr (ctx', span), s1) \<Rightarrow>
          finish_with span (cf ctx' a req rsp opts (SpanKind_Set ''client'' span s1)))"
  by (simp add: NewCallWrapper_def tracer_of_def finish_with_def Let_def
      split: prod.splits sum.splits option.splits)

lemma NewHandlerWrapper_eq:
  "NewHandlerWrapper gt ot0 h ctx req rsp s =
     (case StartSpanFromContext ctx (tracer_of gt ot0)
             (sreq_Service req @ ''.'' @ sreq_Endpoint req) [] s of
        (Inl err, s1) \<Rightarrow> (Some err, s1)
      | (Inr (ctx', span), s1) \<Rightarrow>
          finish_with span (h ctx' req rsp (SpanKind_Set ''server'' span s1)))"
  by (simp add: NewHandlerWrapper_def tracer_of_def finish_with_def Let_def
      split: prod.splits sum.splits option.splits)

lemma NewSubscriberWrapper_eq:
  "NewSubscriberWrapper gt ot0 next ctx msg s =
     (case StartSpanFromContext ctx (tracer_of gt ot0)
             (''Sub from '' @ smsg_Topic msg) [] s of
        (Inl err, s1) \<Rightarrow> (Some err, s1)
      | (Inr (ctx', span), s1) \<Rightarrow>
          finish_with span (next ctx' msg (SpanKind_Set ''consumer'' span s1)))"
  by (simp add: NewSubscriberWrapper_def tracer_of_def finish_with_def Let_def
      split: prod.splits sum.splits option.splits)

lemma otWrapper_Publish_eq:
  "otWrapper_Publish w ctx p opts s =
     (case StartSpanFromContext ctx (ot w) (''Pub to '' @ msg_Topic p) [] s of
        (Inl err, s1) \<Rightarrow> (Some err, s1)
      | (Inr (ctx', span), s1) \<Rightarrow>
          finish_with span (cl_Publish (ot_Client w) ctx' p opts (SpanKind_Set ''producer'' span s1)))"
  by (simp add: otWrapper_Publish_def finish_with_def Let_def
      split: prod.splits sum.splits option.splits)

text \<open>The shape all of them share.\<close>

lemma traced_calls:
  assumes tr: "tracer_frames calls tr"
    and nx: "\<And>c s. calls (snd (next c s)) = Suc (calls s)"
    and kd: "\<And>sp s. span_frames calls sp \<Longrightarrow> calls (kind sp s) = calls s"
  shows "calls (snd (case StartSpanFromContext ctx tr name [] s of
                       (Inl err, s1) \<Rightarrow> (Some err, s1)
                     | (Inr (ctx', span), s1) \<Rightarrow> finish_with span (next ctx' (kind span s1))))
         = calls s + (if isl (fst (StartSpanFromContext ctx tr name [] s)) then 0 else 1)"
proof (cases "StartSpanFromContext ctx tr name [] s")
  case (Pair r s1)
  have c1: "calls s1 = calls s"
    using StartSpanFromContext_frames(1) [OF tr, of ctx name "[]" s] Pair by simp
  show ?thesis
  proof (cases r)
    case (Inl err)
    with Pair c1 show ?thesis by simp
  next
    case (Inr cs)
    obtain ctx' span where cs: "cs = (ctx', span)" by (cases cs)
    have sf: "span_frames calls span"
      using StartSpanFromContext_frames(2) [OF tr] Pair Inr cs by blast
    show ?thesis
      using Pair Inr cs c1 by (simp add: finish_with_calls [OF sf] nx kd [OF sf])
  qed
qed

subsection \<open>How often next is called\<close>


lemma otWrapper_Stream_eq:
  "otWrapper_Stream w ctx req opts s =
     (case StartSpanFromContext ctx (ot w) (req_Service req @ ''.'' @ req_Endpoint req) [] s of
        (Inl err, s1) \<Rightarrow> ((None, Some err), s1)
      | (Inr (ctx', span), s1) \<Rightarrow>
          (case cl_Stream (ot_Client w) ctx' req opts s1 of
             ((stream, e), s2) \<Rightarrow> ((stream, e), snd (finish_with span (e, s2)))))"
  by (simp add: otWrapper_Stream_def finish_with_def Let_def
      split: prod.splits sum.splits option.splits)

text \<open>
  C6. Each tracing wrapper calls its \<open>next\<close> at most once in an invocation: once when the
  span was created, and not at all when it was not. \<open>calls\<close> reads from the state how
  often \<open>next\<close> has been called: every call of \<open>next\<close> adds one, and the tracer and its
  spans leave the count as it is. Then the client's \<open>Call\<close>, the call wrapper, the handler
  wrapper and the subscriber wrapper each add one when \<open>StartSpanFromContext\<close> returned a
  span, and nothing when it returned an error.
\<close>

theorem next_called_once:
  assumes "tracer_frames calls (ot w)" and "tracer_frames calls (tracer_of gt ot0)"
  shows
    "((\<forall>c q r os s. calls (snd (cl_Call (ot_Client w) c q r os s)) = Suc (calls s)) \<longrightarrow>
        calls (snd (otWrapper_Call w ctx req rsp opts s)) =
          calls s + (if isl (fst (StartSpanFromContext ctx (ot w)
                        (req_Service req @ ''.'' @ req_Endpoint req) [] s)) then 0 else 1))
   \<and> ((\<forall>c a q r os s. calls (snd (cf c a q r os s)) = Suc (calls s)) \<longrightarrow>
        calls (snd (NewCallWrapper gt ot0 cf ctx a req rsp copts s)) =
          calls s + (if isl (fst (StartSpanFromContext ctx (tracer_of gt ot0)
                        (req_Service req @ ''.'' @ req_Endpoint req) [] s)) then 0 else 1))
   \<and> ((\<forall>c q r s. calls (snd (h c q r s)) = Suc (calls s)) \<longrightarrow>
        calls (snd (NewHandlerWrapper gt ot0 h ctx sreq rsp s)) =
          calls s + (if isl (fst (StartSpanFromContext ctx (tracer_of gt ot0)
                        (sreq_Service sreq @ ''.'' @ sreq_Endpoint sreq) [] s)) then 0 else 1))
   \<and> ((\<forall>c m s. calls (snd (next c m s)) = Suc (calls s)) \<longrightarrow>
        calls (snd (NewSubscriberWrapper gt ot0 next ctx msg s)) =
          calls s + (if isl (fst (StartSpanFromContext ctx (tracer_of gt ot0)
                        (''Sub from '' @ smsg_Topic msg) [] s)) then 0 else 1))"
proof (intro conjI impI)
  assume "\<forall>c q r os s. calls (snd (cl_Call (ot_Client w) c q r os s)) = Suc (calls s)"
  then show "calls (snd (otWrapper_Call w ctx req rsp opts s)) =
          calls s + (if isl (fst (StartSpanFromContext ctx (ot w)
                        (req_Service req @ ''.'' @ req_Endpoint req) [] s)) then 0 else 1)"
    unfolding otWrapper_Call_eq
    using traced_calls [OF assms(1), of "\<lambda>c s. cl_Call (ot_Client w) c req rsp opts s" "\<lambda>sp s. s"]
    by simp
next
  assume "\<forall>c a q r os s. calls (snd (cf c a q r os s)) = Suc (calls s)"
  then show "calls (snd (NewCallWrapper gt ot0 cf ctx a req rsp copts s)) =
          calls s + (if isl (fst (StartSpanFromContext ctx (tracer_of gt ot0)
                        (req_Service req @ ''.'' @ req_Endpoint req) [] s)) then 0 else 1)"
    unfolding NewCallWrapper_eq
    using traced_calls [OF assms(2), of "\<lambda>c s. cf c a req rsp copts s" "SpanKind_Set ''client''"]
    by (simp add: SpanKind_Set_frames)
next
  assume "\<forall>c q r s. calls (snd (h c q r s)) = Suc (calls s)"
  then show "calls (snd (NewHandlerWrapper gt ot0 h ctx sreq rsp s)) =
          calls s + (if isl (fst (StartSpanFromContext ctx (tracer_of gt ot0)
                        (sreq_Service sreq @ ''.'' @ sreq_Endpoint sreq) [] s)) then 0 else 1)"
    unfolding NewHandlerWrapper_eq
    using traced_calls [OF assms(2), of "\<lambda>c s. h c sreq rsp s" "SpanKind_Set ''server''"]
    by (simp add: SpanKind_Set_frames)
next
  assume "\<forall>c m s. calls (snd (next c m s)) = Suc (calls s)"
  then show "calls (snd (NewSubscriberWrapper gt ot0 next ctx msg s)) =
          calls s + (if isl (fst (StartSpanFromContext ctx (tracer_of gt ot0)
                        (''Sub from '' @ smsg_Topic msg) [] s)) then 0 else 1)"
    unfolding NewSubscriberWrapper_eq
    using traced_calls [OF assms(2), of "\<lambda>c s. next c msg s" "SpanKind_Set ''consumer''"]
    by (simp add: SpanKind_Set_frames)
qed

subsection \<open>The error of next\<close>


text \<open>
  C4. When the span was created, the tracing \<open>Call\<close> of the client and the tracing
  handler return the error that \<open>next\<close> returned: nil for nil, and the same error
  otherwise. When \<open>next\<close> failed, the state they leave is the one \<open>next\<close> left, with the
  error's text logged on the span under \<open>error\<close>, the tag \<open>error\<close> set to true, and the
  span finished; when \<open>next\<close> succeeded the span is only finished.
\<close>

theorem tracing_keeps_error_of_next:
  "(StartSpanFromContext ctx (ot w) (req_Service req @ ''.'' @ req_Endpoint req) [] s
      = (Inr (ctx', span), s1) \<longrightarrow>
      fst (otWrapper_Call w ctx req rsp opts s) = fst (cl_Call (ot_Client w) ctx' req rsp opts s1)
      \<and> (\<forall>err s2. cl_Call (ot_Client w) ctx' req rsp opts s1 = (Some err, s2) \<longrightarrow>
            otWrapper_Call w ctx req rsp opts s =
              (Some err, sp_Finish span (sp_SetTag span ''error'' (TagBool True)
                   (sp_LogFields span [(''error'', Error_text err)] s2))))
      \<and> (\<forall>s2. cl_Call (ot_Client w) ctx' req rsp opts s1 = (None, s2) \<longrightarrow>
            otWrapper_Call w ctx req rsp opts s = (None, sp_Finish span s2)))
   \<and> (StartSpanFromContext ctx (tracer_of gt ot0) (sreq_Service sreq @ ''.'' @ sreq_Endpoint sreq) [] s
      = (Inr (ctx', span), s1) \<longrightarrow>
      (let s1' = sp_SetTag span ''span.kind'' (TagString ''server'') s1 in
       fst (NewHandlerWrapper gt ot0 h ctx sreq rsp s) = fst (h ctx' sreq rsp s1')
       \<and> (\<forall>err s2. h ctx' sreq rsp s1' = (Some err, s2) \<longrightarrow>
            NewHandlerWrapper gt ot0 h ctx sreq rsp s =
              (Some err, sp_Finish span (sp_SetTag span ''error'' (TagBool True)
                   (sp_LogFields span [(''error'', Error_text err)] s2))))
       \<and> (\<forall>s2. h ctx' sreq rsp s1' = (None, s2) \<longrightarrow>
            NewHandlerWrapper gt ot0 h ctx sreq rsp s = (None, sp_Finish span s2))))"
  by (simp add: otWrapper_Call_eq NewHandlerWrapper_eq finish_with_fst Let_def)
     (simp add: finish_with_def span_failed_def SpanKind_Set_def)

subsection \<open>A failing Inject\<close>


lemma StartSpanFromContext_Inl:
  assumes "tr_Inject (sp_Tracer (fst (tr_StartSpan tr name (parent_options ctx tr opts) s)))
             (sp_Context (fst (tr_StartSpan tr name (parent_options ctx tr opts) s))) = Inl err"
  shows "StartSpanFromContext ctx tr name opts s =
           (Inl err, snd (tr_StartSpan tr name (parent_options ctx tr opts) s))"
  using assms by (simp add: StartSpanFromContext_unfold Let_def)

text \<open>
  C10. Each tracing wrapper starts one span, under the name of its own call: service and
  endpoint for \<open>Call\<close>, \<open>Stream\<close> and the handler, \<open>Pub to\<close> and the topic for
  \<open>Publish\<close>. When \<open>Inject\<close> fails with \<open>err\<close> for the span that the tracer starts
  under that name in this context and state, whatever it does for other spans, the
  wrapper returns \<open>err\<close>, and the state it leaves is the one \<open>StartSpan\<close> left. The result
  is the same whatever the wrapped client or handler is: it is not called.
\<close>

theorem inject_failure_aborts:
  assumes w: "ot w = tr" and t: "tracer_of gt ot0 = tr"
  shows
    "(tr_Inject (sp_Tracer (fst (tr_StartSpan tr (req_Service req @ ''.'' @ req_Endpoint req)
                                    (parent_options ctx tr []) s)))
                (sp_Context (fst (tr_StartSpan tr (req_Service req @ ''.'' @ req_Endpoint req)
                                    (parent_options ctx tr []) s))) = Inl err \<longrightarrow>
        otWrapper_Call w ctx req rsp opts s =
          (Some err, snd (tr_StartSpan tr (req_Service req @ ''.'' @ req_Endpoint req)
                            (parent_options ctx tr []) s))
        \<and> otWrapper_Stream w ctx req opts s =
          ((None, Some err), snd (tr_StartSpan tr (req_Service req @ ''.'' @ req_Endpoint req)
                            (parent_options ctx tr []) s))
        \<and> (\<forall>cl. otWrapper_Call (w\<lparr>ot_Client := cl\<rparr>) ctx req rsp opts s =
                 otWrapper_Call w ctx req rsp opts s
               \<and> otWrapper_Stream (w\<lparr>ot_Client := cl\<rparr>) ctx req opts s =
                 otWrapper_Stream w ctx req opts s))
     \<and> (tr_Inject (sp_Tracer (fst (tr_StartSpan tr (''Pub to '' @ msg_Topic p)
                                    (parent_options ctx tr []) s)))
                (sp_Context (fst (tr_StartSpan tr (''Pub to '' @ msg_Topic p)
                                    (parent_options ctx tr []) s))) = Inl err \<longrightarrow>
        otWrapper_Publish w ctx p popts s =
          (Some err, snd (tr_StartSpan tr (''Pub to '' @ msg_Topic p)
                            (parent_options ctx tr []) s))
        \<and> (\<forall>cl. otWrapper_Publish (w\<lparr>ot_Client := cl\<rparr>) ctx p popts s =
                 otWrapper_Publish w ctx p popts s))
     \<and> (tr_Inject (sp_Tracer (fst (tr_StartSpan tr (sreq_Service sreq @ ''.'' @ sreq_Endpoint sreq)
                                    (parent_options ctx tr []) s)))
                (sp_Context (fst (tr_StartSpan tr (sreq_Service sreq @ ''.'' @ sreq_Endpoint sreq)
                                    (parent_options ctx tr []) s))) = Inl err \<longrightarrow>
        NewHandlerWrapper gt ot0 h ctx sreq rsp s =
          (Some err, snd (tr_StartSpan tr (sreq_Service sreq @ ''.'' @ sreq_Endpoint sreq)
                            (parent_options ctx tr []) s))
        \<and> (\<forall>h'. NewHandlerWrapper gt ot0 h' ctx sreq rsp s =
                 NewHandlerWrapper gt ot0 h ctx sreq rsp s))"
proof (intro conjI impI)
  assume "tr_Inject (sp_Tracer (fst (tr_StartSpan tr (req_Service req @ ''.'' @ req_Endpoint req)
                                    (parent_options ctx tr []) s)))
                (sp_Context (fst (tr_StartSpan tr (req_Service req @ ''.'' @ req_Endpoint req)
                                    (parent_options ctx tr []) s))) = Inl err"
  then have f: "StartSpanFromContext ctx tr (req_Service req @ ''.'' @ req_Endpoint req) [] s =
      (Inl err, snd (tr_StartSpan tr (req_Service req @ ''.'' @ req_Endpoint req)
                       (parent_options ctx tr []) s))"
    by (rule StartSpanFromContext_Inl)
  show "otWrapper_Call w ctx req rsp opts s =
          (Some err, snd (tr_StartSpan tr (req_Service req @ ''.'' @ req_Endpoint req)
                            (parent_options ctx tr []) s))"
    using f by (simp add: otWrapper_Call_eq w)
  show "otWrapper_Stream w ctx req opts s =
          ((None, Some err), snd (tr_StartSpan tr (req_Service req @ ''.'' @ req_Endpoint req)
                            (parent_options ctx tr []) s))"
    using f by (simp add: otWrapper_Stream_eq w)
  show "\<forall>cl. otWrapper_Call (w\<lparr>ot_Client := cl\<rparr>) ctx req rsp opts s =
                 otWrapper_Call w ctx req rsp opts s
               \<and> otWrapper_Stream (w\<lparr>ot_Client := cl\<rparr>) ctx req opts s =
                 otWrapper_Stream w ctx req opts s"
    using f by (simp add: otWrapper_Call_eq otWrapper_Stream_eq w)
next
  assume "tr_Inject (sp_Tracer (fst (tr_StartSpan tr (''Pub to '' @ msg_Topic p)
                                    (parent_options ctx tr []) s)))
                (sp_Context (fst (tr_StartSpan tr (''Pub to '' @ msg_Topic p)
                                    (parent_options ctx tr []) s))) = Inl err"
  then have f: "StartSpanFromContext ctx tr (''Pub to '' @ msg_Topic p) [] s =
      (Inl err, snd (tr_StartSpan tr (''Pub to '' @ msg_Topic p) (parent_options ctx tr []) s))"
    by (rule StartSpanFromContext_Inl)
  show "otWrapper_Publish w ctx p popts s =
          (Some err, snd (tr_StartSpan tr (''Pub to '' @ msg_Topic p)
                            (parent_options ctx tr []) s))"
    using f by (simp add: otWrapper_Publish_eq w)
  show "\<forall>cl. otWrapper_Publish (w\<lparr>ot_Client := cl\<rparr>) ctx p popts s =
                 otWrapper_Publish w ctx p popts s"
    using f by (simp add: otWrapper_Publish_eq w)
next
  assume "tr_Inject (sp_Tracer (fst (tr_StartSpan tr (sreq_Service sreq @ ''.'' @ sreq_Endpoint sreq)
                                    (parent_options ctx tr []) s)))
                (sp_Context (fst (tr_StartSpan tr (sreq_Service sreq @ ''.'' @ sreq_Endpoint sreq)
                                    (parent_options ctx tr []) s))) = Inl err"
  then have f: "StartSpanFromContext ctx tr (sreq_Service sreq @ ''.'' @ sreq_Endpoint sreq) [] s =
      (Inl err, snd (tr_StartSpan tr (sreq_Service sreq @ ''.'' @ sreq_Endpoint sreq)
                       (parent_options ctx tr []) s))"
    by (rule StartSpanFromContext_Inl)
  show "NewHandlerWrapper gt ot0 h ctx sreq rsp s =
          (Some err, snd (tr_StartSpan tr (sreq_Service sreq @ ''.'' @ sreq_Endpoint sreq)
                            (parent_options ctx tr []) s))"
    using f by (simp add: NewHandlerWrapper_eq t)
  show "\<forall>h'. NewHandlerWrapper gt ot0 h' ctx sreq rsp s =
                 NewHandlerWrapper gt ot0 h ctx sreq rsp s"
    using f by (simp add: NewHandlerWrapper_eq t)
qed

subsection \<open>Parent and metadata\<close>


lemma fold_md_other:
  "key \<notin> (Title \<circ> fst) ` set nmd \<Longrightarrow>
     fold (\<lambda>(k, v) m. m(Title k \<mapsto> v)) nmd md key = md key"
  by (induction nmd arbitrary: md) (auto split: prod.splits)

lemma fold_md_key:
  "key \<in> (Title \<circ> fst) ` set nmd \<Longrightarrow>
     \<exists>k' v'. (k', v') \<in> set nmd \<and> Title k' = key
        \<and> fold (\<lambda>(k, v) m. m(Title k \<mapsto> v)) nmd md key = Some v'"
proof (induction nmd arbitrary: md)
  case Nil
  then show ?case by simp
next
  case (Cons a nmd)
  obtain k0 v0 where a: "a = (k0, v0)" by (cases a)
  show ?case
  proof (cases "key \<in> (Title \<circ> fst) ` set nmd")
    case True
    from Cons.IH [OF True, of "md(Title k0 \<mapsto> v0)"]
    obtain k' v' where "(k', v') \<in> set nmd" "Title k' = key"
      "fold (\<lambda>(k, v) m. m(Title k \<mapsto> v)) nmd (md(Title k0 \<mapsto> v0)) key = Some v'"
      by blast
    then have "(k', v') \<in> set (a # nmd) \<and> Title k' = key
        \<and> fold (\<lambda>(k, v) m. m(Title k \<mapsto> v)) (a # nmd) md key = Some v'"
      by (simp add: a)
    then show ?thesis by blast
  next
    case False
    with Cons.prems have k: "Title k0 = key" by (auto simp: a)
    have "fold (\<lambda>(k, v) m. m(Title k \<mapsto> v)) nmd (md(Title k0 \<mapsto> v0)) key
            = (md(Title k0 \<mapsto> v0)) key"
      using False by (rule fold_md_other)
    then have "(k0, v0) \<in> set (a # nmd) \<and> Title k0 = key
        \<and> fold (\<lambda>(k, v) m. m(Title k \<mapsto> v)) (a # nmd) md key = Some v0"
      using k by (simp add: a)
    then show ?thesis by blast
  qed
qed

lemma fold_md_some:
  assumes "(k, v) \<in> set nmd"
  shows "\<exists>k' v'. (k', v') \<in> set nmd \<and> Title k' = Title k
        \<and> fold (\<lambda>(k, v) m. m(Title k \<mapsto> v)) nmd md (Title k) = Some v'"
proof (rule fold_md_key)
  from assms have "(Title \<circ> fst) (k, v) \<in> (Title \<circ> fst) ` set nmd" by (rule imageI)
  then show "Title k \<in> (Title \<circ> fst) ` set nmd" by simp
qed

lemma fold_md_distinct:
  "distinct (map (Title \<circ> fst) nmd) \<Longrightarrow> (k, v) \<in> set nmd \<Longrightarrow>
     fold (\<lambda>(k, v) m. m(Title k \<mapsto> v)) nmd md (Title k) = Some v"
proof (induction nmd arbitrary: md)
  case Nil
  then show ?case by simp
next
  case (Cons a nmd)
  obtain k0 v0 where a: "a = (k0, v0)" by (cases a)
  show ?case
  proof (cases "(k, v) \<in> set nmd")
    case True
    with Cons show ?thesis by (simp add: a)
  next
    case False
    with Cons.prems have e: "k = k0" "v = v0" by (simp_all add: a)
    from Cons.prems(1) have "Title k0 \<notin> (Title \<circ> fst) ` set nmd" by (simp add: a)
    then have "fold (\<lambda>(k, v) m. m(Title k \<mapsto> v)) nmd (md(Title k0 \<mapsto> v0)) (Title k0)
            = (md(Title k0 \<mapsto> v0)) (Title k0)"
      by (rule fold_md_other)
    moreover have "fold (\<lambda>(k, v) m. m(Title k \<mapsto> v)) (a # nmd) md (Title k)
            = fold (\<lambda>(k, v) m. m(Title k \<mapsto> v)) nmd (md(Title k0 \<mapsto> v0)) (Title k0)"
      by (simp only: a e fold_simps prod.case comp_apply)
    ultimately show ?thesis by (simp only: fun_upd_same e)
  qed
qed

text \<open>
  C5. \<open>StartSpanFromContext\<close> takes as parent the span that the context holds, if there
  is one, and then \<open>Extract\<close> has no part in the result; else the span context that
  \<open>Extract\<close> finds in the metadata of the context; else none. The span is started with
  the caller's options and that parent. When a context is returned, it holds the new span,
  and its metadata are the incoming ones with the entries that \<open>Inject\<close> produced stored
  under their Title-cased keys: every such key is set to a value injected under it (to the
  value of the entry itself when no two entries share a Title-cased key), and every other
  key is as it was. The tracing \<open>Call\<close> and the tracing handler then call \<open>next\<close> with
  that context.
\<close>

theorem StartSpanFromContext_parent_then_metadata:
  "(\<forall>p. ctx_span ctx = Some p \<longrightarrow>
      parent_options ctx tr opts = opts @ [ChildOf (sp_Context p)]
      \<and> (\<forall>ex. StartSpanFromContext ctx (tr\<lparr>tr_Extract := ex\<rparr>) name opts s =
               StartSpanFromContext ctx tr name opts s))
   \<and> (\<forall>c. ctx_span ctx = None \<longrightarrow> tr_Extract tr (md_of ctx) = Inr c \<longrightarrow>
        parent_options ctx tr opts = opts @ [ChildOf c])
   \<and> (\<forall>e. ctx_span ctx = None \<longrightarrow> tr_Extract tr (md_of ctx) = Inl e \<longrightarrow>
        parent_options ctx tr opts = opts)
   \<and> snd (StartSpanFromContext ctx tr name opts s) =
        snd (tr_StartSpan tr name (parent_options ctx tr opts) s)
   \<and> (\<forall>ctx' sp s1. StartSpanFromContext ctx tr name opts s = (Inr (ctx', sp), s1) \<longrightarrow>
        sp = fst (tr_StartSpan tr name (parent_options ctx tr opts) s)
        \<and> ctx_span ctx' = Some sp
        \<and> (\<exists>nmd md'. tr_Inject (sp_Tracer sp) (sp_Context sp) = Inr nmd
              \<and> ctx_md ctx' = Some md'
              \<and> (\<forall>k v. (k, v) \<in> set nmd \<longrightarrow>
                    (\<exists>k' v'. (k', v') \<in> set nmd \<and> Title k' = Title k \<and> md' (Title k) = Some v'))
              \<and> (distinct (map (Title \<circ> fst) nmd) \<longrightarrow>
                    (\<forall>k v. (k, v) \<in> set nmd \<longrightarrow> md' (Title k) = Some v))
              \<and> (\<forall>key. key \<notin> (Title \<circ> fst) ` set nmd \<longrightarrow> md' key = md_of ctx key)))
   \<and> (\<forall>w req rsp copts ctx' sp s1.
        StartSpanFromContext ctx (ot w) (req_Service req @ ''.'' @ req_Endpoint req) [] s
          = (Inr (ctx', sp), s1) \<longrightarrow>
        otWrapper_Call w ctx req rsp copts s =
          finish_with sp (cl_Call (ot_Client w) ctx' req rsp copts s1))
   \<and> (\<forall>gt ot0 h sreq rsp ctx' sp s1.
        StartSpanFromContext ctx (tracer_of gt ot0) (sreq_Service sreq @ ''.'' @ sreq_Endpoint sreq) [] s
          = (Inr (ctx', sp), s1) \<longrightarrow>
        NewHandlerWrapper gt ot0 h ctx sreq rsp s =
          finish_with sp (h ctx' sreq rsp (SpanKind_Set ''server'' sp s1)))"
proof (intro conjI allI impI)
  fix p ex assume p: "ctx_span ctx = Some p"
  show "parent_options ctx tr opts = opts @ [ChildOf (sp_Context p)]"
    using p by (simp add: parent_options_def)
  have "parent_options ctx (tr\<lparr>tr_Extract := ex\<rparr>) opts = parent_options ctx tr opts"
    using p by (simp add: parent_options_def)
  then show "StartSpanFromContext ctx (tr\<lparr>tr_Extract := ex\<rparr>) name opts s =
               StartSpanFromContext ctx tr name opts s"
    by (simp add: StartSpanFromContext_unfold)
next
  fix c assume "ctx_span ctx = None" "tr_Extract tr (md_of ctx) = Inr c"
  then show "parent_options ctx tr opts = opts @ [ChildOf c]"
    by (simp add: parent_options_def)
next
  fix e assume "ctx_span ctx = None" "tr_Extract tr (md_of ctx) = Inl e"
  then show "parent_options ctx tr opts = opts"
    by (simp add: parent_options_def)
next
  show "snd (StartSpanFromContext ctx tr name opts s) =
        snd (tr_StartSpan tr name (parent_options ctx tr opts) s)"
    by (rule StartSpanFromContext_state)
next
  fix ctx' sp s1
  assume a: "StartSpanFromContext ctx tr name opts s = (Inr (ctx', sp), s1)"
  show sp: "sp = fst (tr_StartSpan tr name (parent_options ctx tr opts) s)"
    using a by (rule StartSpanFromContext_span)
  from a obtain nmd where nmd: "tr_Inject (sp_Tracer sp) (sp_Context sp) = Inr nmd"
    and c: "ctx' = ctx\<lparr>ctx_span := Some sp,
               ctx_md := Some (fold (\<lambda>(k, v) m. m(Title k \<mapsto> v)) nmd (md_of ctx))\<rparr>"
    by (auto simp: StartSpanFromContext_unfold Let_def split: sum.splits)
  show "ctx_span ctx' = Some sp" by (simp add: c)
  let ?md' = "fold (\<lambda>(k, v) m. m(Title k \<mapsto> v)) nmd (md_of ctx)"
  have "ctx_md ctx' = Some ?md'" by (simp add: c)
  moreover have "\<forall>k v. (k, v) \<in> set nmd \<longrightarrow>
          (\<exists>k' v'. (k', v') \<in> set nmd \<and> Title k' = Title k \<and> ?md' (Title k) = Some v')"
    by (intro allI impI) (rule fold_md_some)
  moreover have "distinct (map (Title \<circ> fst) nmd) \<longrightarrow>
                    (\<forall>k v. (k, v) \<in> set nmd \<longrightarrow> ?md' (Title k) = Some v)"
    by (intro allI impI) (rule fold_md_distinct)
  moreover have "\<forall>key. key \<notin> (Title \<circ> fst) ` set nmd \<longrightarrow> ?md' key = md_of ctx key"
    by (intro allI impI) (rule fold_md_other)
  ultimately show "\<exists>nmd md'. tr_Inject (sp_Tracer sp) (sp_Context sp) = Inr nmd
              \<and> ctx_md ctx' = Some md'
              \<and> (\<forall>k v. (k, v) \<in> set nmd \<longrightarrow>
                    (\<exists>k' v'. (k', v') \<in> set nmd \<and> Title k' = Title k \<and> md' (Title k) = Some v'))
              \<and> (distinct (map (Title \<circ> fst) nmd) \<longrightarrow>
                    (\<forall>k v. (k, v) \<in> set nmd \<longrightarrow> md' (Title k) = Some v))
              \<and> (\<forall>key. key \<notin> (Title \<circ> fst) ` set nmd \<longrightarrow> md' key = md_of ctx key)"
    using nmd by blast
next
  fix w :: "('a, 'b) otWrapper" and req :: client_Request and rsp copts ctx' sp s1
  assume "StartSpanFromContext ctx (ot w) (req_Service req @ ''.'' @ req_Endpoint req) [] s
          = (Inr (ctx', sp), s1)"
  then show "otWrapper_Call w ctx req rsp copts s =
          finish_with sp (cl_Call (ot_Client w) ctx' req rsp copts s1)"
    by (simp add: otWrapper_Call_eq)
next
  fix gt :: "('a, 'b) Tracer" and ot0 h and sreq :: server_Request and rsp ctx' sp s1
  assume "StartSpanFromContext ctx (tracer_of gt ot0) (sreq_Service sreq @ ''.'' @ sreq_Endpoint sreq) [] s
          = (Inr (ctx', sp), s1)"
  then show "NewHandlerWrapper gt ot0 h ctx sreq rsp s =
          finish_with sp (h ctx' sreq rsp (SpanKind_Set ''server'' sp s1))"
    by (simp add: NewHandlerWrapper_eq)
qed

subsection \<open>The recording tracer at work\<close>


lemma Title_uber: "Title ''uber-trace-id'' = ''Uber-Trace-Id''"
  by code_simp

lemma recording_StartSpanFromContext:
  "StartSpanFromContext ctx (recording_tracer recording_propagation) name opts s =
     (Inr (ctx\<lparr>ctx_span := Some (recording_span recording_propagation name),
               ctx_md := Some ((md_of ctx)(''Uber-Trace-Id'' \<mapsto> name))\<rparr>,
           recording_span recording_propagation name),
      s @ [Started name (parent_options ctx (recording_tracer recording_propagation) opts)])"
  by (simp add: StartSpanFromContext_unfold recording_tracer_def recording_span_def
      recording_propagation_def Title_uber Let_def)

lemma failing_StartSpanFromContext:
  "StartSpanFromContext ctx (recording_tracer failing_propagation) name opts s =
     (Inl (Error ''inject failed''),
      s @ [Started name (parent_options ctx (recording_tracer failing_propagation) opts)])"
  by (simp add: StartSpanFromContext_unfold recording_tracer_def recording_span_def
      failing_propagation_def Let_def)

lemma recording_frames: "tracer_frames count_calls (recording_tracer pr)"
  by (simp add: tracer_frames_def span_frames_def recording_tracer_def recording_span_def
      count_calls_def)

lemma parent_options_Background':
  "parent_options Background (recording_tracer recording_propagation) [] = []"
  by (simp add: parent_options_def Background_def md_of_def recording_tracer_def
      recording_propagation_def)

theorem next_called_once_witness:
  "tracer_frames count_calls (recording_tracer recording_propagation)
   \<and> tracer_frames count_calls (recording_tracer failing_propagation)
   \<and> (\<forall>c q r s. count_calls (snd (failing_handler c q r s)) = Suc (count_calls s))
   \<and> count_calls (snd (NewHandlerWrapper (recording_tracer recording_propagation) None
        failing_handler Background \<lparr>sreq_Service = ''greeter'', sreq_Endpoint = ''Hello''\<rparr>
        undefined [])) = 1
   \<and> count_calls (snd (NewHandlerWrapper (recording_tracer failing_propagation) None
        failing_handler Background \<lparr>sreq_Service = ''greeter'', sreq_Endpoint = ''Hello''\<rparr>
        undefined [])) = 0"
proof -
  let ?rq = "\<lparr>sreq_Service = ''greeter'', sreq_Endpoint = ''Hello''\<rparr>"
  let ?w1 = "\<lparr>ot = recording_tracer recording_propagation, ot_Client = failing_client\<rparr>"
  let ?w2 = "\<lparr>ot = recording_tracer failing_propagation, ot_Client = failing_client\<rparr>"
  have h: "\<forall>c q r s. count_calls (snd (failing_handler c q r s)) = Suc (count_calls s)"
    by (simp add: failing_handler_def count_calls_def)
  have f1: "tracer_frames count_calls (ot ?w1)"
      "tracer_frames count_calls (tracer_of (recording_tracer recording_propagation) None)"
    and f2: "tracer_frames count_calls (ot ?w2)"
      "tracer_frames count_calls (tracer_of (recording_tracer failing_propagation) None)"
    by (simp_all add: tracer_of_def recording_frames)
  have a: "count_calls (snd (NewHandlerWrapper (recording_tracer recording_propagation) None
        failing_handler Background ?rq undefined [])) = 1"
    using next_called_once [OF f1, where h = failing_handler and ctx = Background
        and sreq = ?rq and rsp = undefined and s = "[]"] h
    by (simp add: tracer_of_def recording_StartSpanFromContext count_calls_def)
  have b: "count_calls (snd (NewHandlerWrapper (recording_tracer failing_propagation) None
        failing_handler Background ?rq undefined [])) = 0"
    using next_called_once [OF f2, where h = failing_handler and ctx = Background
        and sreq = ?rq and rsp = undefined and s = "[]"] h
    by (simp add: tracer_of_def failing_StartSpanFromContext count_calls_def)
  show ?thesis using h a b recording_frames by blast
qed

theorem tracing_keeps_error_of_next_witness:
  "(\<exists>ctx' span s1.
      StartSpanFromContext Background (tracer_of (recording_tracer recording_propagation) None)
        (''greeter'' @ ''.'' @ ''Hello'') [] [] = (Inr (ctx', span), s1))
   \<and> NewHandlerWrapper (recording_tracer recording_propagation) None failing_handler
        Background \<lparr>sreq_Service = ''greeter'', sreq_Endpoint = ''Hello''\<rparr> undefined [] =
      (Some (Error ''boom''),
       [Started ''greeter.Hello'' [],
        Tagged ''greeter.Hello'' ''span.kind'' (TagString ''server''),
        Called ''greeter.Hello'',
        Logged ''greeter.Hello'' [(''error'', ''boom'')],
        Tagged ''greeter.Hello'' ''error'' (TagBool True),
        Finished ''greeter.Hello''])"
proof -
  let ?rt = "recording_tracer recording_propagation"
  let ?rq = "\<lparr>sreq_Service = ''greeter'', sreq_Endpoint = ''Hello''\<rparr>"
  let ?sp = "recording_span recording_propagation ''greeter.Hello''"
  let ?bg = "Background :: (event list, string) Context"
  let ?ctx' = "?bg\<lparr>ctx_span := Some ?sp,
                 ctx_md := Some ((md_of ?bg)(''Uber-Trace-Id'' \<mapsto> ''greeter.Hello''))\<rparr>"
  have e: "StartSpanFromContext Background (tracer_of ?rt None)
             (sreq_Service ?rq @ ''.'' @ sreq_Endpoint ?rq) [] []
           = (Inr (?ctx', ?sp), [Started ''greeter.Hello'' []])"
    by (simp add: tracer_of_def recording_StartSpanFromContext parent_options_Background')
  have n: "failing_handler ?ctx' ?rq undefined
             (sp_SetTag ?sp ''span.kind'' (TagString ''server'') [Started ''greeter.Hello'' []])
           = (Some (Error ''boom''),
              [Started ''greeter.Hello'' [],
               Tagged ''greeter.Hello'' ''span.kind'' (TagString ''server''),
               Called ''greeter.Hello''])"
    by (simp add: failing_handler_def recording_span_def trace_id_def)
  have "NewHandlerWrapper ?rt None failing_handler Background ?rq undefined [] =
      (Some (Error ''boom''),
       sp_Finish ?sp (sp_SetTag ?sp ''error'' (TagBool True)
         (sp_LogFields ?sp [(''error'', Error_text (Error ''boom''))]
            [Started ''greeter.Hello'' [],
               Tagged ''greeter.Hello'' ''span.kind'' (TagString ''server''),
               Called ''greeter.Hello''])))"
    using tracing_keeps_error_of_next [where gt = ?rt and ?ot0.0 = None and ctx = Background
        and sreq = ?rq and s = "[]" and ctx' = ?ctx' and span = ?sp
        and ?s1.0 = "[Started ''greeter.Hello'' []]" and h = failing_handler
        and rsp = undefined] e n
    by (simp add: Let_def)
  then have "NewHandlerWrapper ?rt None failing_handler Background ?rq undefined [] =
      (Some (Error ''boom''),
       [Started ''greeter.Hello'' [],
        Tagged ''greeter.Hello'' ''span.kind'' (TagString ''server''),
        Called ''greeter.Hello'',
        Logged ''greeter.Hello'' [(''error'', ''boom'')],
        Tagged ''greeter.Hello'' ''error'' (TagBool True),
        Finished ''greeter.Hello''])"
    by (simp add: recording_span_def)
  moreover have "\<exists>ctx' span s1.
      StartSpanFromContext Background (tracer_of ?rt None)
        (''greeter'' @ ''.'' @ ''Hello'') [] [] = (Inr (ctx', span), s1)"
    using e by auto
  ultimately show ?thesis by blast
qed

theorem inject_failure_aborts_witness:
  "tr_Inject (sp_Tracer (fst (tr_StartSpan (recording_tracer picky_propagation) ''greeter.Hello''
               (parent_options Background (recording_tracer picky_propagation) []) [])))
             (sp_Context (fst (tr_StartSpan (recording_tracer picky_propagation) ''greeter.Hello''
               (parent_options Background (recording_tracer picky_propagation) []) [])))
        = Inl (Error ''inject failed'')
   \<and> tr_Inject (sp_Tracer (fst (tr_StartSpan (recording_tracer picky_propagation) ''greeter.Bye''
               (parent_options Background (recording_tracer picky_propagation) []) [])))
             (sp_Context (fst (tr_StartSpan (recording_tracer picky_propagation) ''greeter.Bye''
               (parent_options Background (recording_tracer picky_propagation) []) [])))
        = Inr [(''uber-trace-id'', ''greeter.Bye'')]
   \<and> otWrapper_Call \<lparr>ot = recording_tracer picky_propagation, ot_Client = failing_client\<rparr>
        Background \<lparr>req_Service = ''greeter'', req_Endpoint = ''Hello''\<rparr> undefined [] [] =
      (Some (Error ''inject failed''), [Started ''greeter.Hello'' []])
   \<and> NewHandlerWrapper (recording_tracer picky_propagation) None failing_handler
        Background \<lparr>sreq_Service = ''greeter'', sreq_Endpoint = ''Hello''\<rparr> undefined [] =
      (Some (Error ''inject failed''), [Started ''greeter.Hello'' []])"
proof -
  let ?ft = "recording_tracer picky_propagation"
  let ?w = "\<lparr>ot = ?ft, ot_Client = failing_client\<rparr>"
  have po: "parent_options Background ?ft [] = []"
    by (simp add: parent_options_def Background_def md_of_def recording_tracer_def
        picky_propagation_def recording_propagation_def)
  have i: "tr_Inject (sp_Tracer (fst (tr_StartSpan ?ft ''greeter.Hello''
               (parent_options Background ?ft []) [])))
             (sp_Context (fst (tr_StartSpan ?ft ''greeter.Hello''
               (parent_options Background ?ft []) [])))
        = Inl (Error ''inject failed'')"
    by (simp add: recording_tracer_def recording_span_def picky_propagation_def)
  have j: "tr_Inject (sp_Tracer (fst (tr_StartSpan ?ft ''greeter.Bye''
               (parent_options Background ?ft []) [])))
             (sp_Context (fst (tr_StartSpan ?ft ''greeter.Bye''
               (parent_options Background ?ft []) [])))
        = Inr [(''uber-trace-id'', ''greeter.Bye'')]"
    by (simp add: recording_tracer_def recording_span_def picky_propagation_def
        recording_propagation_def)
  have st: "snd (tr_StartSpan ?ft name opts []) = [Started name opts]" for name opts
    by (simp add: recording_tracer_def)
  have w: "ot ?w = ?ft" and t: "tracer_of ?ft None = ?ft"
    by (simp_all add: tracer_of_def)
  from inject_failure_aborts [OF w t,
      where req = "\<lparr>req_Service = ''greeter'', req_Endpoint = ''Hello''\<rparr>"
        and rsp = undefined and opts = "[]" and h = failing_handler
        and sreq = "\<lparr>sreq_Service = ''greeter'', sreq_Endpoint = ''Hello''\<rparr>"
        and p = "\<lparr>msg_Topic = ''events''\<rparr>" and popts = "[]"
        and ctx = Background and s = "[]" and err = "Error ''inject failed''"] i
  have "otWrapper_Call ?w Background \<lparr>req_Service = ''greeter'', req_Endpoint = ''Hello''\<rparr>
          undefined [] [] = (Some (Error ''inject failed''), [Started ''greeter.Hello'' []])
      \<and> NewHandlerWrapper ?ft None failing_handler
        Background \<lparr>sreq_Service = ''greeter'', sreq_Endpoint = ''Hello''\<rparr> undefined [] =
      (Some (Error ''inject failed''), [Started ''greeter.Hello'' []])"
    by (elim conjE) (simp add: po st)
  with i j show ?thesis by blast
qed

theorem StartSpanFromContext_parent_then_metadata_witness:
  "ctx_span ctx_with_span = Some (recording_span recording_propagation ''parent'')
   \<and> snd (StartSpanFromContext ctx_with_span (recording_tracer recording_propagation)
            ''child'' [] []) = [Started ''child'' [ChildOf ''parent'']]
   \<and> ctx_span ctx_from_wire = None
   \<and> tr_Extract (recording_tracer recording_propagation) (md_of ctx_from_wire) = Inr ''wire''
   \<and> snd (StartSpanFromContext ctx_from_wire (recording_tracer recording_propagation)
            ''child'' [] []) = [Started ''child'' [ChildOf ''wire'']]
   \<and> (\<exists>ctx' sp s1 md'.
         StartSpanFromContext ctx_from_wire (recording_tracer recording_propagation)
            ''child'' [] [] = (Inr (ctx', sp), s1)
         \<and> ctx_span ctx' = Some sp \<and> ctx_md ctx' = Some md'
         \<and> md' ''Uber-Trace-Id'' = Some ''child'')"
proof -
  let ?rt = "recording_tracer recording_propagation"
  note th1 = StartSpanFromContext_parent_then_metadata
    [where ctx = ctx_with_span and tr = ?rt and opts = "[]" and name = "''child''" and s = "[]"]
  note th2 = StartSpanFromContext_parent_then_metadata
    [where ctx = ctx_from_wire and tr = ?rt and opts = "[]" and name = "''child''" and s = "[]"]
  have st: "snd (tr_StartSpan ?rt name opts s) = s @ [Started name opts]" for name opts s
    by (simp add: recording_tracer_def)
  have a: "ctx_span ctx_with_span = Some (recording_span recording_propagation ''parent'')"
    by (simp add: ctx_with_span_def)
  from th1 a have "parent_options ctx_with_span ?rt [] =
        [] @ [ChildOf (sp_Context (recording_span recording_propagation ''parent''))]"
    and s1: "snd (StartSpanFromContext ctx_with_span ?rt ''child'' [] []) =
        snd (tr_StartSpan ?rt ''child'' (parent_options ctx_with_span ?rt []) [])"
    by (elim conjE, simp)+
  then have b: "snd (StartSpanFromContext ctx_with_span ?rt ''child'' [] [])
                 = [Started ''child'' [ChildOf ''parent'']]"
    by (simp add: st recording_span_def)
  have c: "ctx_span ctx_from_wire = None" by (simp add: ctx_from_wire_def)
  have d: "tr_Extract ?rt (md_of ctx_from_wire) = Inr ''wire''"
    by (simp add: recording_tracer_def recording_propagation_def md_of_def ctx_from_wire_def
        wire_md_def)
  from th2 c d have "parent_options ctx_from_wire ?rt [] = [] @ [ChildOf ''wire'']"
    and s2: "snd (StartSpanFromContext ctx_from_wire ?rt ''child'' [] []) =
        snd (tr_StartSpan ?rt ''child'' (parent_options ctx_from_wire ?rt []) [])"
    by (elim conjE, simp)+
  then have e: "snd (StartSpanFromContext ctx_from_wire ?rt ''child'' [] [])
                 = [Started ''child'' [ChildOf ''wire'']]"
    by (simp add: st)
  obtain ctx' sp s1 where f: "StartSpanFromContext ctx_from_wire ?rt ''child'' [] []
      = (Inr (ctx', sp), s1)"
    by (simp add: recording_StartSpanFromContext)
  from th2 f have sp: "sp = fst (tr_StartSpan ?rt ''child'' (parent_options ctx_from_wire ?rt []) [])"
    and cs: "ctx_span ctx' = Some sp"
    and ex: "\<exists>nmd md'. tr_Inject (sp_Tracer sp) (sp_Context sp) = Inr nmd
              \<and> ctx_md ctx' = Some md'
              \<and> (\<forall>k v. (k, v) \<in> set nmd \<longrightarrow>
                    (\<exists>k' v'. (k', v') \<in> set nmd \<and> Title k' = Title k \<and> md' (Title k) = Some v'))
              \<and> (distinct (map (Title \<circ> fst) nmd) \<longrightarrow>
                    (\<forall>k v. (k, v) \<in> set nmd \<longrightarrow> md' (Title k) = Some v))
              \<and> (\<forall>key. key \<notin> (Title \<circ> fst) ` set nmd \<longrightarrow> md' key = md_of ctx_from_wire key)"
    by (elim conjE, blast)+
  from ex obtain nmd md' where i: "tr_Inject (sp_Tracer sp) (sp_Context sp) = Inr nmd"
    and m: "ctx_md ctx' = Some md'"
    and di: "distinct (map (Title \<circ> fst) nmd) \<longrightarrow>
                    (\<forall>k v. (k, v) \<in> set nmd \<longrightarrow> md' (Title k) = Some v)"
    by blast
  from i sp have "nmd = [(''uber-trace-id'', ''child'')]"
    by (simp add: recording_tracer_def recording_span_def recording_propagation_def)
  with di have "md' (Title ''uber-trace-id'') = Some ''child''" by simp
  then have g: "md' ''Uber-Trace-Id'' = Some ''child''" by (simp only: Title_uber)
  from f cs m g have "\<exists>ctx' sp s1 md'.
         StartSpanFromContext ctx_from_wire ?rt ''child'' [] [] = (Inr (ctx', sp), s1)
         \<and> ctx_span ctx' = Some sp \<and> ctx_md ctx' = Some md'
         \<and> md' ''Uber-Trace-Id'' = Some ''child''"
    by blast
  with a b c d e show ?thesis by (intro conjI)
qed

section \<open>Package server\<close>


subsection \<open>newOptions\<close>


lemma default_steps:
  "(if opts_Broker opts = None then opts\<lparr>opts_Broker := Some b\<rparr> else opts) =
     opts\<lparr>opts_Broker := (case opts_Broker opts of None \<Rightarrow> Some b | Some x \<Rightarrow> Some x)\<rparr>"
  "(if opts_Registry opts = None then opts\<lparr>opts_Registry := Some r\<rparr> else opts) =
     opts\<lparr>opts_Registry := (case opts_Registry opts of None \<Rightarrow> Some r | Some x \<Rightarrow> Some x)\<rparr>"
  "(if opts_Transport opts = None then opts\<lparr>opts_Transport := Some t\<rparr> else opts) =
     opts\<lparr>opts_Transport := (case opts_Transport opts of None \<Rightarrow> Some t | Some x \<Rightarrow> Some x)\<rparr>"
  "(if opts_RegisterCheck opts = None then opts\<lparr>opts_RegisterCheck := Some f\<rparr> else opts) =
     opts\<lparr>opts_RegisterCheck :=
            (case opts_RegisterCheck opts of None \<Rightarrow> Some f | Some x \<Rightarrow> Some x)\<rparr>"
  "(if length (opts_Address opts) = 0 then opts\<lparr>opts_Address := a\<rparr> else opts) =
     opts\<lparr>opts_Address := (if opts_Address opts = [] then a else opts_Address opts)\<rparr>"
  "(if length (opts_Name opts) = 0 then opts\<lparr>opts_Name := n\<rparr> else opts) =
     opts\<lparr>opts_Name := (if opts_Name opts = [] then n else opts_Name opts)\<rparr>"
  "(if length (opts_Id opts) = 0 then opts\<lparr>opts_Id := i\<rparr> else opts) =
     opts\<lparr>opts_Id := (if opts_Id opts = [] then i else opts_Id opts)\<rparr>"
  "(if length (opts_Version opts) = 0 then opts\<lparr>opts_Version := v\<rparr> else opts) =
     opts\<lparr>opts_Version := (if opts_Version opts = [] then v else opts_Version opts)\<rparr>"
  by (simp_all split: option.splits)

lemma newOptions_eq:
  "newOptions d opt =
     (case apply_options opt (Options_literal d) of
        Inl p \<Rightarrow> Inl p
      | Inr opts \<Rightarrow> Inr (with_defaults d opts))"
  unfolding newOptions_def Let_def default_steps
  by (simp add: Options_literal_def with_defaults_def split: sum.splits)

lemma rpc_newOptions_eq: "rpc_newOptions d opt = newOptions d opt"
  by (simp add: rpc_newOptions_def newOptions_def)

lemma apply_options_append:
  "apply_options (fs @ gs) opts =
     (case apply_options fs opts of Inl p \<Rightarrow> Inl p | Inr opts' \<Rightarrow> apply_options gs opts')"
  by (induction fs arbitrary: opts) (auto split: sum.splits)

lemma apply_options_WrapHandler:
  "apply_options (map WrapHandler ws) opts =
     Inr (opts\<lparr>opts_HdlrWrappers := opts_HdlrWrappers opts @ ws\<rparr>)"
  by (induction ws arbitrary: opts) (simp_all add: WrapHandler_def)

lemma apply_options_WrapSubscriber:
  "apply_options (map WrapSubscriber ws) opts =
     Inr (opts\<lparr>opts_SubWrappers := opts_SubWrappers opts @ ws\<rparr>)"
  by (induction ws arbitrary: opts) (simp_all add: WrapSubscriber_def)

lemma with_defaults_fields:
  "opts_Broker (with_defaults d opts) =
     (case opts_Broker opts of None \<Rightarrow> Some (mbroker_NewBroker d) | Some b \<Rightarrow> Some b)"
  "opts_Registry (with_defaults d opts) =
     (case opts_Registry opts of None \<Rightarrow> Some (memory_NewRegistry d) | Some r \<Rightarrow> Some r)"
  "opts_Transport (with_defaults d opts) =
     (case opts_Transport opts of None \<Rightarrow> Some (tmem_NewTransport d) | Some t \<Rightarrow> Some t)"
  "opts_RegisterCheck (with_defaults d opts) =
     (case opts_RegisterCheck opts of None \<Rightarrow> Some (DefaultRegisterCheck d) | Some f \<Rightarrow> Some f)"
  "opts_Address (with_defaults d opts) =
     (if opts_Address opts = [] then DefaultAddress d else opts_Address opts)"
  "opts_Name (with_defaults d opts) =
     (if opts_Name opts = [] then DefaultName d else opts_Name opts)"
  "opts_Id (with_defaults d opts) = (if opts_Id opts = [] then DefaultId d else opts_Id opts)"
  "opts_Version (with_defaults d opts) =
     (if opts_Version opts = [] then DefaultVersion d else opts_Version opts)"
  by (simp_all add: with_defaults_def)

lemma with_defaults_frame:
  "opts_RegisterTTL (with_defaults d opts) = opts_RegisterTTL opts"
  "opts_RegisterInterval (with_defaults d opts) = opts_RegisterInterval opts"
  "opts_Codecs (with_defaults d opts) = opts_Codecs opts"
  "opts_Trace (with_defaults d opts) = opts_Trace opts"
  "opts_Auth (with_defaults d opts) = opts_Auth opts"
  "opts_Metadata (with_defaults d opts) = opts_Metadata opts"
  "opts_Advertise (with_defaults d opts) = opts_Advertise opts"
  "opts_Namespace (with_defaults d opts) = opts_Namespace opts"
  "opts_HdlrWrappers (with_defaults d opts) = opts_HdlrWrappers opts"
  "opts_SubWrappers (with_defaults d opts) = opts_SubWrappers opts"
  "opts_Router (with_defaults d opts) = opts_Router opts"
  "opts_TLSConfig (with_defaults d opts) = opts_TLSConfig opts"
  "opts_Context (with_defaults d opts) = opts_Context opts"
  by (simp_all add: with_defaults_def)

lemma newOptions_Inr:
  "newOptions d opt = Inr r \<longleftrightarrow>
     (\<exists>opts. apply_options opt (Options_literal d) = Inr opts \<and> r = with_defaults d opts)"
  by (auto simp: newOptions_eq split: sum.splits)

lemma apply_options_returns:
  "\<forall>f \<in> set opt. \<forall>opts. \<exists>opts'. f opts = Inr opts' \<Longrightarrow> \<exists>r. apply_options opt opts = Inr r"
proof (induction opt arbitrary: opts)
  case Nil
  then show ?case by simp
next
  case (Cons f fs)
  then obtain opts' where "f opts = Inr opts'" by (meson list.set_intros(1))
  moreover from Cons obtain r where "apply_options fs opts' = Inr r"
    by (meson list.set_intros(2))
  ultimately show ?case by simp
qed

lemma newOptions_last:
  assumes "newOptions d (fs @ [f]) = Inr r"
  obtains o1 o2 where "apply_options fs (Options_literal d) = Inr o1" "f o1 = Inr o2"
    "r = with_defaults d o2"
  using assms
  by (auto simp: newOptions_eq apply_options_append split: sum.splits)

lemma newOptions_sets:
  assumes "newOptions d (fs @ [f]) = Inr r"
    and "\<And>opts. f opts = Inr (upd opts)"
  shows "\<exists>opts. r = with_defaults d (upd opts)"
proof -
  from assms(1) obtain o1 o2 where "f o1 = Inr o2" "r = with_defaults d o2"
    by (rule newOptions_last)
  with assms(2) [of o1] show ?thesis by auto
qed

text \<open>
  \<open>newOptions\<close> does panic: \<open>TLSConfig\<close> applied while no transport is set calls
  \<open>Init\<close> through the nil interface.
\<close>

lemma newOptions_TLSConfig_panics: "newOptions d [TLSConfig Init t] = Inl NilDereference"
  by (simp add: newOptions_eq TLSConfig_def Options_literal_def)

text \<open>
  C8. With non-empty defaults for address, name, id and version, the \<open>Options\<close> that
  \<open>newOptions\<close> returns (the one of package server and the one of package rpc, which
  are the same function) have a broker, a registry, a transport and a register check, and
  a non-empty address, name, id and version. Each of these is what the supplied options
  left, and the default only where they left nil or the empty string; every other field,
  the register TTL and interval among them, is as the options left it. The options are
  applied to a literal whose TTL and interval are the defaults, so with no options the
  result is all defaults. An option that sets one of these fields to a non-nil, non-empty
  value, applied last, is found in the result. When no option panics, \<open>newOptions\<close>
  returns.
\<close>

theorem newOptions_fills_defaults:
  assumes "DefaultAddress d \<noteq> []" and "DefaultName d \<noteq> []" and "DefaultId d \<noteq> []"
    and "DefaultVersion d \<noteq> []"
  shows
    "rpc_newOptions d opt = newOptions d opt
     \<and> (\<forall>r. newOptions d opt = Inr r \<longrightarrow>
          opts_Broker r \<noteq> None \<and> opts_Registry r \<noteq> None \<and> opts_Transport r \<noteq> None
          \<and> opts_RegisterCheck r \<noteq> None
          \<and> opts_Address r \<noteq> [] \<and> opts_Name r \<noteq> [] \<and> opts_Id r \<noteq> [] \<and> opts_Version r \<noteq> []
          \<and> (\<exists>opts. apply_options opt (Options_literal d) = Inr opts
                \<and> opts_Broker r = (case opts_Broker opts of
                                     None \<Rightarrow> Some (mbroker_NewBroker d) | Some b \<Rightarrow> Some b)
                \<and> opts_Registry r = (case opts_Registry opts of
                                     None \<Rightarrow> Some (memory_NewRegistry d) | Some x \<Rightarrow> Some x)
                \<and> opts_Transport r = (case opts_Transport opts of
                                     None \<Rightarrow> Some (tmem_NewTransport d) | Some t \<Rightarrow> Some t)
                \<and> opts_RegisterCheck r = (case opts_RegisterCheck opts of
                                     None \<Rightarrow> Some (DefaultRegisterCheck d) | Some f \<Rightarrow> Some f)
                \<and> opts_Address r = (if opts_Address opts = [] then DefaultAddress d
                                     else opts_Address opts)
                \<and> opts_Name r = (if opts_Name opts = [] then DefaultName d else opts_Name opts)
                \<and> opts_Id r = (if opts_Id opts = [] then DefaultId d else opts_Id opts)
                \<and> opts_Version r = (if opts_Version opts = [] then DefaultVersion d
                                     else opts_Version opts)
                \<and> opts_RegisterTTL r = opts_RegisterTTL opts
                \<and> opts_RegisterInterval r = opts_RegisterInterval opts
                \<and> opts_Codecs r = opts_Codecs opts \<and> opts_Trace r = opts_Trace opts
                \<and> opts_Auth r = opts_Auth opts \<and> opts_Metadata r = opts_Metadata opts
                \<and> opts_Advertise r = opts_Advertise opts
                \<and> opts_Namespace r = opts_Namespace opts
                \<and> opts_HdlrWrappers r = opts_HdlrWrappers opts
                \<and> opts_SubWrappers r = opts_SubWrappers opts
                \<and> opts_Router r = opts_Router opts \<and> opts_TLSConfig r = opts_TLSConfig opts
                \<and> opts_Context r = opts_Context opts))
     \<and> opts_RegisterTTL (Options_literal d) = DefaultRegisterTTL d
     \<and> opts_RegisterInterval (Options_literal d) = DefaultRegisterInterval d
     \<and> (\<exists>r. newOptions d [] = Inr r
           \<and> opts_RegisterTTL r = DefaultRegisterTTL d
           \<and> opts_RegisterInterval r = DefaultRegisterInterval d
           \<and> opts_Broker r = Some (mbroker_NewBroker d)
           \<and> opts_Registry r = Some (memory_NewRegistry d)
           \<and> opts_Transport r = Some (tmem_NewTransport d)
           \<and> opts_RegisterCheck r = Some (DefaultRegisterCheck d)
           \<and> opts_Address r = DefaultAddress d \<and> opts_Name r = DefaultName d
           \<and> opts_Id r = DefaultId d \<and> opts_Version r = DefaultVersion d)
     \<and> (\<forall>fs r. (\<forall>n. n \<noteq> [] \<longrightarrow> newOptions d (fs @ [Name n]) = Inr r \<longrightarrow> opts_Name r = n)
           \<and> (\<forall>a. a \<noteq> [] \<longrightarrow> newOptions d (fs @ [Address a]) = Inr r \<longrightarrow> opts_Address r = a)
           \<and> (\<forall>i. i \<noteq> [] \<longrightarrow> newOptions d (fs @ [Id_option i]) = Inr r \<longrightarrow> opts_Id r = i)
           \<and> (\<forall>v. v \<noteq> [] \<longrightarrow> newOptions d (fs @ [Version v]) = Inr r \<longrightarrow> opts_Version r = v)
           \<and> (\<forall>b. newOptions d (fs @ [Broker (Some b)]) = Inr r \<longrightarrow> opts_Broker r = Some b)
           \<and> (\<forall>x. newOptions d (fs @ [Registry (Some x)]) = Inr r \<longrightarrow> opts_Registry r = Some x)
           \<and> (\<forall>t. newOptions d (fs @ [Transport (Some t)]) = Inr r \<longrightarrow>
                  opts_Transport r = Some t)
           \<and> (\<forall>f. newOptions d (fs @ [RegisterCheck (Some f)]) = Inr r \<longrightarrow>
                  opts_RegisterCheck r = Some f)
           \<and> (\<forall>t. newOptions d (fs @ [RegisterTTL t]) = Inr r \<longrightarrow> opts_RegisterTTL r = t)
           \<and> (\<forall>t. newOptions d (fs @ [RegisterInterval t]) = Inr r \<longrightarrow>
                  opts_RegisterInterval r = t))
     \<and> ((\<forall>f \<in> set opt. \<forall>opts. \<exists>opts'. f opts = Inr opts') \<longrightarrow> (\<exists>r. newOptions d opt = Inr r))"
proof (intro conjI)
  show "rpc_newOptions d opt = newOptions d opt" by (rule rpc_newOptions_eq)
  show "opts_RegisterTTL (Options_literal d) = DefaultRegisterTTL d"
    "opts_RegisterInterval (Options_literal d) = DefaultRegisterInterval d"
    by (simp_all add: Options_literal_def)
  show "\<exists>r. newOptions d [] = Inr r
           \<and> opts_RegisterTTL r = DefaultRegisterTTL d
           \<and> opts_RegisterInterval r = DefaultRegisterInterval d
           \<and> opts_Broker r = Some (mbroker_NewBroker d)
           \<and> opts_Registry r = Some (memory_NewRegistry d)
           \<and> opts_Transport r = Some (tmem_NewTransport d)
           \<and> opts_RegisterCheck r = Some (DefaultRegisterCheck d)
           \<and> opts_Address r = DefaultAddress d \<and> opts_Name r = DefaultName d
           \<and> opts_Id r = DefaultId d \<and> opts_Version r = DefaultVersion d"
    by (simp add: newOptions_eq with_defaults_fields with_defaults_frame)
       (simp add: Options_literal_def)
  show "(\<forall>f \<in> set opt. \<forall>opts. \<exists>opts'. f opts = Inr opts') \<longrightarrow> (\<exists>r. newOptions d opt = Inr r)"
  proof
    assume "\<forall>f \<in> set opt. \<forall>opts. \<exists>opts'. f opts = Inr opts'"
    then obtain opts where "apply_options opt (Options_literal d) = Inr opts"
      using apply_options_returns by blast
    then show "\<exists>r. newOptions d opt = Inr r" by (simp add: newOptions_eq)
  qed
next
  show "\<forall>r. newOptions d opt = Inr r \<longrightarrow>
          opts_Broker r \<noteq> None \<and> opts_Registry r \<noteq> None \<and> opts_Transport r \<noteq> None
          \<and> opts_RegisterCheck r \<noteq> None
          \<and> opts_Address r \<noteq> [] \<and> opts_Name r \<noteq> [] \<and> opts_Id r \<noteq> [] \<and> opts_Version r \<noteq> []
          \<and> (\<exists>opts. apply_options opt (Options_literal d) = Inr opts
                \<and> opts_Broker r = (case opts_Broker opts of
                                     None \<Rightarrow> Some (mbroker_NewBroker d) | Some b \<Rightarrow> Some b)
                \<and> opts_Registry r = (case opts_Registry opts of
                                     None \<Rightarrow> Some (memory_NewRegistry d) | Some x \<Rightarrow> Some x)
                \<and> opts_Transport r = (case opts_Transport opts of
                                     None \<Rightarrow> Some (tmem_NewTransport d) | Some t \<Rightarrow> Some t)
                \<and> opts_RegisterCheck r = (case opts_RegisterCheck opts of
                                     None \<Rightarrow> Some (DefaultRegisterCheck d) | Some f \<Rightarrow> Some f)
                \<and> opts_Address r = (if opts_Address opts = [] then DefaultAddress d
                                     else opts_Address opts)
                \<and> opts_Name r = (if opts_Name opts = [] then DefaultName d else opts_Name opts)
                \<and> opts_Id r = (if opts_Id opts = [] then DefaultId d else opts_Id opts)
                \<and> opts_Version r = (if opts_Version opts = [] then DefaultVersion d
                                     else opts_Version opts)
                \<and> opts_RegisterTTL r = opts_RegisterTTL opts
                \<and> opts_RegisterInterval r = opts_RegisterInterval opts
                \<and> opts_Codecs r = opts_Codecs opts \<and> opts_Trace r = opts_Trace opts
                \<and> opts_Auth r = opts_Auth opts \<and> opts_Metadata r = opts_Metadata opts
                \<and> opts_Advertise r = opts_Advertise opts
                \<and> opts_Namespace r = opts_Namespace opts
                \<and> opts_HdlrWrappers r = opts_HdlrWrappers opts
                \<and> opts_SubWrappers r = opts_SubWrappers opts
                \<and> opts_Router r = opts_Router opts \<and> opts_TLSConfig r = opts_TLSConfig opts
                \<and> opts_Context r = opts_Context opts)"
  proof (intro allI impI)
    fix r assume "newOptions d opt = Inr r"
    then obtain opts where o: "apply_options opt (Options_literal d) = Inr opts"
      and r: "r = with_defaults d opts"
      by (auto simp: newOptions_Inr)
    have nn: "opts_Broker r \<noteq> None" "opts_Registry r \<noteq> None" "opts_Transport r \<noteq> None"
        "opts_RegisterCheck r \<noteq> None"
      by (simp_all add: r with_defaults_fields split: option.splits)
    have ne: "opts_Address r \<noteq> []" "opts_Name r \<noteq> []" "opts_Id r \<noteq> []" "opts_Version r \<noteq> []"
      using assms by (simp_all add: r with_defaults_fields)
    have fr: "opts_Broker r = (case opts_Broker opts of
                                     None \<Rightarrow> Some (mbroker_NewBroker d) | Some b \<Rightarrow> Some b)
                \<and> opts_Registry r = (case opts_Registry opts of
                                     None \<Rightarrow> Some (memory_NewRegistry d) | Some x \<Rightarrow> Some x)
                \<and> opts_Transport r = (case opts_Transport opts of
                                     None \<Rightarrow> Some (tmem_NewTransport d) | Some t \<Rightarrow> Some t)
                \<and> opts_RegisterCheck r = (case opts_RegisterCheck opts of
                                     None \<Rightarrow> Some (DefaultRegisterCheck d) | Some f \<Rightarrow> Some f)
                \<and> opts_Address r = (if opts_Address opts = [] then DefaultAddress d
                                     else opts_Address opts)
                \<and> opts_Name r = (if opts_Name opts = [] then DefaultName d else opts_Name opts)
                \<and> opts_Id r = (if opts_Id opts = [] then DefaultId d else opts_Id opts)
                \<and> opts_Version r = (if opts_Version opts = [] then DefaultVersion d
                                     else opts_Version opts)
                \<and> opts_RegisterTTL r = opts_RegisterTTL opts
                \<and> opts_RegisterInterval r = opts_RegisterInterval opts
                \<and> opts_Codecs r = opts_Codecs opts \<and> opts_Trace r = opts_Trace opts
                \<and> opts_Auth r = opts_Auth opts \<and> opts_Metadata r = opts_Metadata opts
                \<and> opts_Advertise r = opts_Advertise opts
                \<and> opts_Namespace r = opts_Namespace opts
                \<and> opts_HdlrWrappers r = opts_HdlrWrappers opts
                \<and> opts_SubWrappers r = opts_SubWrappers opts
                \<and> opts_Router r = opts_Router opts \<and> opts_TLSConfig r = opts_TLSConfig opts
                \<and> opts_Context r = opts_Context opts"
      by (simp only: r with_defaults_fields with_defaults_frame simp_thms)
    show "opts_Broker r \<noteq> None \<and> opts_Registry r \<noteq> None \<and> opts_Transport r \<noteq> None
          \<and> opts_RegisterCheck r \<noteq> None
          \<and> opts_Address r \<noteq> [] \<and> opts_Name r \<noteq> [] \<and> opts_Id r \<noteq> [] \<and> opts_Version r \<noteq> []
          \<and> (\<exists>opts. apply_options opt (Options_literal d) = Inr opts
                \<and> opts_Broker r = (case opts_Broker opts of
                                     None \<Rightarrow> Some (mbroker_NewBroker d) | Some b \<Rightarrow> Some b)
                \<and> opts_Registry r = (case opts_Registry opts of
                                     None \<Rightarrow> Some (memory_NewRegistry d) | Some x \<Rightarrow> Some x)
                \<and> opts_Transport r = (case opts_Transport opts of
                                     None \<Rightarrow> Some (tmem_NewTransport d) | Some t \<Rightarrow> Some t)
                \<and> opts_RegisterCheck r = (case opts_RegisterCheck opts of
                                     None \<Rightarrow> Some (DefaultRegisterCheck d) | Some f \<Rightarrow> Some f)
                \<and> opts_Address r = (if opts_Address opts = [] then DefaultAddress d
                                     else opts_Address opts)
                \<and> opts_Name r = (if opts_Name opts = [] then DefaultName d else opts_Name opts)
                \<and> opts_Id r = (if opts_Id opts = [] then DefaultId d else opts_Id opts)
                \<and> opts_Version r = (if opts_Version opts = [] then DefaultVersion d
                                     else opts_Version opts)
                \<and> opts_RegisterTTL r = opts_RegisterTTL opts
                \<and> opts_RegisterInterval r = opts_RegisterInterval opts
                \<and> opts_Codecs r = opts_Codecs opts \<and> opts_Trace r = opts_Trace opts
                \<and> opts_Auth r = opts_Auth opts \<and> opts_Metadata r = opts_Metadata opts
                \<and> opts_Advertise r = opts_Advertise opts
                \<and> opts_Namespace r = opts_Namespace opts
                \<and> opts_HdlrWrappers r = opts_HdlrWrappers opts
                \<and> opts_SubWrappers r = opts_SubWrappers opts
                \<and> opts_Router r = opts_Router opts \<and> opts_TLSConfig r = opts_TLSConfig opts
                \<and> opts_Context r = opts_Context opts)"
      by (intro conjI nn ne exI [of _ opts]) (use o fr in \<open>simp_all only: simp_thms\<close>)
  qed
next
  show "\<forall>fs r. (\<forall>n. n \<noteq> [] \<longrightarrow> newOptions d (fs @ [Name n]) = Inr r \<longrightarrow> opts_Name r = n)
           \<and> (\<forall>a. a \<noteq> [] \<longrightarrow> newOptions d (fs @ [Address a]) = Inr r \<longrightarrow> opts_Address r = a)
           \<and> (\<forall>i. i \<noteq> [] \<longrightarrow> newOptions d (fs @ [Id_option i]) = Inr r \<longrightarrow> opts_Id r = i)
           \<and> (\<forall>v. v \<noteq> [] \<longrightarrow> newOptions d (fs @ [Version v]) = Inr r \<longrightarrow> opts_Version r = v)
           \<and> (\<forall>b. newOptions d (fs @ [Broker (Some b)]) = Inr r \<longrightarrow> opts_Broker r = Some b)
           \<and> (\<forall>x. newOptions d (fs @ [Registry (Some x)]) = Inr r \<longrightarrow> opts_Registry r = Some x)
           \<and> (\<forall>t. newOptions d (fs @ [Transport (Some t)]) = Inr r \<longrightarrow>
                  opts_Transport r = Some t)
           \<and> (\<forall>f. newOptions d (fs @ [RegisterCheck (Some f)]) = Inr r \<longrightarrow>
                  opts_RegisterCheck r = Some f)
           \<and> (\<forall>t. newOptions d (fs @ [RegisterTTL t]) = Inr r \<longrightarrow> opts_RegisterTTL r = t)
           \<and> (\<forall>t. newOptions d (fs @ [RegisterInterval t]) = Inr r \<longrightarrow>
                  opts_RegisterInterval r = t)"
  proof (intro allI conjI impI)
    fix fs :: "('a, 'b) Option list" and r :: "('a, 'b) Options"
    { fix n :: string assume "n \<noteq> []" "newOptions d (fs @ [Name n]) = Inr r"
      from newOptions_sets [OF this(2), of "\<lambda>opts. opts\<lparr>opts_Name := n\<rparr>"] \<open>n \<noteq> []\<close>
      show "opts_Name r = n" by (auto simp: Name_def with_defaults_fields) }
    { fix a :: string assume "a \<noteq> []" "newOptions d (fs @ [Address a]) = Inr r"
      from newOptions_sets [OF this(2), of "\<lambda>opts. opts\<lparr>opts_Address := a\<rparr>"] \<open>a \<noteq> []\<close>
      show "opts_Address r = a" by (auto simp: Address_def with_defaults_fields) }
    { fix i :: string assume "i \<noteq> []" "newOptions d (fs @ [Id_option i]) = Inr r"
      from newOptions_sets [OF this(2), of "\<lambda>opts. opts\<lparr>opts_Id := i\<rparr>"] \<open>i \<noteq> []\<close>
      show "opts_Id r = i" by (auto simp: Id_option_def with_defaults_fields) }
    { fix v :: string assume "v \<noteq> []" "newOptions d (fs @ [Version v]) = Inr r"
      from newOptions_sets [OF this(2), of "\<lambda>opts. opts\<lparr>opts_Version := v\<rparr>"] \<open>v \<noteq> []\<close>
      show "opts_Version r = v" by (auto simp: Version_def with_defaults_fields) }
    { fix b assume "newOptions d (fs @ [Broker (Some b)]) = Inr r"
      from newOptions_sets [OF this, of "\<lambda>opts. opts\<lparr>opts_Broker := Some b\<rparr>"]
      show "opts_Broker r = Some b" by (auto simp: Broker_def with_defaults_fields) }
    { fix x assume "newOptions d (fs @ [Registry (Some x)]) = Inr r"
      from newOptions_sets [OF this, of "\<lambda>opts. opts\<lparr>opts_Registry := Some x\<rparr>"]
      show "opts_Registry r = Some x" by (auto simp: Registry_def with_defaults_fields) }
    { fix t assume "newOptions d (fs @ [Transport (Some t)]) = Inr r"
      from newOptions_sets [OF this, of "\<lambda>opts. opts\<lparr>opts_Transport := Some t\<rparr>"]
      show "opts_Transport r = Some t" by (auto simp: Transport_def with_defaults_fields) }
    { fix f assume "newOptions d (fs @ [RegisterCheck (Some f)]) = Inr r"
      from newOptions_sets [OF this, of "\<lambda>opts. opts\<lparr>opts_RegisterCheck := Some f\<rparr>"]
      show "opts_RegisterCheck r = Some f" by (auto simp: RegisterCheck_def with_defaults_fields) }
    { fix t assume "newOptions d (fs @ [RegisterTTL t]) = Inr r"
      from newOptions_sets [OF this, of "\<lambda>opts. opts\<lparr>opts_RegisterTTL := t\<rparr>"]
      show "opts_RegisterTTL r = t" by (auto simp: RegisterTTL_def with_defaults_frame) }
    { fix t assume "newOptions d (fs @ [RegisterInterval t]) = Inr r"
      from newOptions_sets [OF this, of "\<lambda>opts. opts\<lparr>opts_RegisterInterval := t\<rparr>"]
      show "opts_RegisterInterval r = t"
        by (auto simp: RegisterInterval_def with_defaults_frame) }
  qed
qed

theorem newOptions_fills_defaults_witness:
  "DefaultAddress (example_defaults :: (string list, string) Defaults) \<noteq> []
   \<and> DefaultName (example_defaults :: (string list, string) Defaults) \<noteq> []
   \<and> DefaultId (example_defaults :: (string list, string) Defaults) \<noteq> []
   \<and> DefaultVersion (example_defaults :: (string list, string) Defaults) \<noteq> []
   \<and> (\<exists>r. newOptions (example_defaults :: (string list, string) Defaults)
              [Name ''greeter'', RegisterTTL 90, Address '':8080''] = Inr r
         \<and> opts_Name r = ''greeter'' \<and> opts_Address r = '':8080'' \<and> opts_Id r = ''1''
         \<and> opts_Version r = ''latest'' \<and> opts_RegisterTTL r = 90
         \<and> opts_RegisterInterval r = 30 \<and> opts_Broker r \<noteq> None \<and> opts_Registry r \<noteq> None
         \<and> opts_Transport r \<noteq> None \<and> opts_RegisterCheck r \<noteq> None)"
proof -
  let ?d = "example_defaults :: (string list, string) Defaults"
  let ?opt = "[Name ''greeter'', RegisterTTL 90, Address '':8080''] :: (string list, string) Option list"
  have d: "DefaultAddress ?d \<noteq> []" "DefaultName ?d \<noteq> []" "DefaultId ?d \<noteq> []"
    "DefaultVersion ?d \<noteq> []"
    by (simp_all add: example_defaults_def)
  let ?o = "(Options_literal ?d)\<lparr>opts_Name := ''greeter'', opts_RegisterTTL := 90,
              opts_Address := '':8080''\<rparr>"
  have a: "apply_options ?opt (Options_literal ?d) = Inr ?o"
    by (simp add: Name_def RegisterTTL_def Address_def)
  then have n: "newOptions ?d ?opt = Inr (with_defaults ?d ?o)"
    by (simp add: newOptions_eq)
  from newOptions_fills_defaults [OF d, of ?opt] n
  have nn: "opts_Broker (with_defaults ?d ?o) \<noteq> None \<and> opts_Registry (with_defaults ?d ?o) \<noteq> None
      \<and> opts_Transport (with_defaults ?d ?o) \<noteq> None
      \<and> opts_RegisterCheck (with_defaults ?d ?o) \<noteq> None"
    by (elim conjE) simp
  have ad: "opts_Address (with_defaults ?d ?o) = '':8080''"
    by (simp add: with_defaults_fields)
  have rest: "opts_Name (with_defaults ?d ?o) = ''greeter''"
    "opts_Id (with_defaults ?d ?o) = ''1''" "opts_Version (with_defaults ?d ?o) = ''latest''"
    "opts_RegisterTTL (with_defaults ?d ?o) = 90" "opts_RegisterInterval (with_defaults ?d ?o) = 30"
    by (simp_all add: with_defaults_fields with_defaults_frame Options_literal_def
        example_defaults_def)
  show ?thesis
    using d n nn ad rest by (intro conjI exI [of _ "with_defaults ?d ?o"]) simp_all
qed

subsection \<open>The wrapper chain\<close>


lemma wrapHandlers_Cons: "wrapHandlers (w # ws) h = w (wrapHandlers ws h)"
  by (simp add: wrapHandlers_def)

lemma observed_apply:
  "observed n next ctx req rsp s =
     (fst (next ctx req rsp (s @ [n @ ''-pre''])),
      snd (next ctx req rsp (s @ [n @ ''-pre''])) @ [n @ ''-post''])"
  by (simp add: observed_def split: prod.splits)

lemma wrapHandlers_observed:
  "wrapHandlers (map observed ns) h ctx req rsp s =
     (fst (h ctx req rsp (s @ map (\<lambda>n. n @ ''-pre'') ns)),
      snd (h ctx req rsp (s @ map (\<lambda>n. n @ ''-pre'') ns)) @ map (\<lambda>n. n @ ''-post'') (rev ns))"
proof (induction ns arbitrary: s)
  case Nil
  then show ?case by (simp add: wrapHandlers_def)
next
  case (Cons n ns)
  have "wrapHandlers (map observed (n # ns)) h ctx req rsp s =
          observed n (wrapHandlers (map observed ns) h) ctx req rsp s"
    by (simp only: list.map wrapHandlers_Cons)
  also have "\<dots> =
     (fst (wrapHandlers (map observed ns) h ctx req rsp (s @ [n @ ''-pre''])),
      snd (wrapHandlers (map observed ns) h ctx req rsp (s @ [n @ ''-pre''])) @ [n @ ''-post''])"
    by (rule observed_apply)
  also have "\<dots> =
     (fst (h ctx req rsp (s @ map (\<lambda>n. n @ ''-pre'') (n # ns))),
      snd (h ctx req rsp (s @ map (\<lambda>n. n @ ''-pre'') (n # ns)))
        @ map (\<lambda>n. n @ ''-post'') (rev (n # ns)))"
    unfolding Cons.IH by simp
  finally show ?case .
qed

lemma newOptions_WrapHandler:
  "\<exists>r. newOptions d (map WrapHandler ws) = Inr r \<and> opts_HdlrWrappers r = ws"
  by (simp add: newOptions_eq apply_options_WrapHandler with_defaults_frame)
     (simp add: Options_literal_def)

text \<open>
  C2. Wrappers registered through \<open>WrapHandler\<close> are kept by \<open>newOptions\<close> in the order
  of registration, and the chain over them calls the first registered outermost: with
  observed wrappers named \<open>ns\<close> around a terminal handler \<open>t\<close>, the record reads
  \<open>n1-pre, ..., nk-pre, t, nk-post, ..., n1-post\<close>; the chain of \<open>W1, W2\<close> over \<open>h\<close> is
  \<open>W1 (W2 h)\<close>.
\<close>

theorem first_registered_wrapper_is_outermost:
  "\<exists>r. newOptions d (map (\<lambda>n. WrapHandler (observed n)) ns) = Inr r
      \<and> opts_HdlrWrappers r = map observed ns
      \<and> wrapHandlers (opts_HdlrWrappers r) (terminal t) ctx req rsp s =
          (None, s @ map (\<lambda>n. n @ ''-pre'') ns @ [t] @ map (\<lambda>n. n @ ''-post'') (rev ns))
      \<and> (\<forall>W1 W2 h. wrapHandlers [W1, W2] h = W1 (W2 h))"
proof -
  have m: "map (\<lambda>n. WrapHandler (observed n)) ns = map WrapHandler (map observed ns)"
    by simp
  obtain r where r: "newOptions d (map WrapHandler (map observed ns)) = Inr r"
    "opts_HdlrWrappers r = map observed ns"
    using newOptions_WrapHandler by blast
  have "wrapHandlers (opts_HdlrWrappers r) (terminal t) ctx req rsp s =
          (None, s @ map (\<lambda>n. n @ ''-pre'') ns @ [t] @ map (\<lambda>n. n @ ''-post'') (rev ns))"
    by (simp add: r wrapHandlers_observed terminal_def)
  moreover have "\<forall>W1 W2 h. wrapHandlers [W1, W2] h = W1 (W2 h)"
    by (simp add: wrapHandlers_def)
  ultimately show ?thesis using r unfolding m by blast
qed

theorem first_registered_wrapper_is_outermost_witness:
  "\<exists>r. newOptions (example_defaults :: (string list, string) Defaults)
          [WrapHandler (observed ''W1''), WrapHandler (observed ''W2'')] = Inr r
      \<and> wrapHandlers (opts_HdlrWrappers r) (terminal ''T'') Background
          \<lparr>sreq_Service = ''greeter'', sreq_Endpoint = ''Hello''\<rparr> undefined [] =
          (None, [''W1-pre'', ''W2-pre'', ''T'', ''W2-post'', ''W1-post''])"
  using first_registered_wrapper_is_outermost
    [of "example_defaults :: (string list, string) Defaults" "[''W1'', ''W2'']" "''T''"
        Background "\<lparr>sreq_Service = ''greeter'', sreq_Endpoint = ''Hello''\<rparr>" undefined "[]"]
  by auto

subsection \<open>Where wrappers are registered\<close>


lemma jaeger_init_registries:
  "serverWrappers (jaeger_init k gt g) = (serverWrappers g)(k \<mapsto> NewHandlerWrapper gt None)"
  "clientWrappers (jaeger_init k gt g) = (clientWrappers g)(k \<mapsto> NewClientWrapper gt None)"
  by (simp_all add: jaeger_init_def SetServerWrapper_def SetClientWrapper_def Let_def)

text \<open>
  C3, as claimed, fails: importing package jaeger runs its \<open>init\<close>, which changes the
  registry of package component. Here on the empty registry, with the key \<open>trace\<close>.
\<close>

theorem init_registers_globally_counterexample:
  "jaeger_init ''trace'' (recording_tracer recording_propagation) empty_component
     \<noteq> empty_component"
proof
  assume "jaeger_init ''trace'' (recording_tracer recording_propagation) empty_component
            = empty_component"
  then have "serverWrappers
               (jaeger_init ''trace'' (recording_tracer recording_propagation) empty_component)
               ''trace'' = serverWrappers empty_component ''trace''"
    by simp
  then show False by (simp add: jaeger_init_registries empty_component_def)
qed

text \<open>
  C3, amended. Package jaeger does register through a side effect of its import: \<open>init\<close>
  stores the tracing handler wrapper and the tracing client wrapper in the registries of
  package component under \<open>WrapperTraceKey\<close>, and leaves the other keys as they are. The
  options take wrappers from the caller alone: \<open>WrapHandler\<close> and \<open>WrapSubscriber\<close>
  append their wrapper to the \<open>Options\<close> they are applied to, \<open>newOptions\<close> starts from
  empty lists and returns the lists as the supplied options left them, so that for
  \<open>WrapHandler\<close> and \<open>WrapSubscriber\<close> options the lists are the caller's, in order.
\<close>

theorem wrappers_from_options_and_from_init:
  "serverWrappers (jaeger_init k gt g) = (serverWrappers g)(k \<mapsto> NewHandlerWrapper gt None)
   \<and> clientWrappers (jaeger_init k gt g) = (clientWrappers g)(k \<mapsto> NewClientWrapper gt None)
   \<and> (\<forall>opts. WrapHandler w opts = Inr (opts\<lparr>opts_HdlrWrappers := opts_HdlrWrappers opts @ [w]\<rparr>))
   \<and> (\<forall>opts. WrapSubscriber sw opts =
               Inr (opts\<lparr>opts_SubWrappers := opts_SubWrappers opts @ [sw]\<rparr>))
   \<and> (\<forall>r. newOptions d opt = Inr r \<longrightarrow>
         (\<exists>opts. apply_options opt (Options_literal d) = Inr opts
            \<and> opts_HdlrWrappers r = opts_HdlrWrappers opts
            \<and> opts_SubWrappers r = opts_SubWrappers opts))
   \<and> opts_HdlrWrappers (Options_literal d) = [] \<and> opts_SubWrappers (Options_literal d) = []
   \<and> (\<exists>r. newOptions d (map WrapHandler hs @ map WrapSubscriber ss) = Inr r
         \<and> opts_HdlrWrappers r = hs \<and> opts_SubWrappers r = ss)"
proof (intro conjI allI impI)
  show "serverWrappers (jaeger_init k gt g) = (serverWrappers g)(k \<mapsto> NewHandlerWrapper gt None)"
    "clientWrappers (jaeger_init k gt g) = (clientWrappers g)(k \<mapsto> NewClientWrapper gt None)"
    by (rule jaeger_init_registries)+
  show "opts_HdlrWrappers (Options_literal d) = []" "opts_SubWrappers (Options_literal d) = []"
    by (simp_all add: Options_literal_def)
  show "WrapHandler w opts = Inr (opts\<lparr>opts_HdlrWrappers := opts_HdlrWrappers opts @ [w]\<rparr>)"
    for opts by (simp add: WrapHandler_def)
  show "WrapSubscriber sw opts = Inr (opts\<lparr>opts_SubWrappers := opts_SubWrappers opts @ [sw]\<rparr>)"
    for opts by (simp add: WrapSubscriber_def)
  show "\<exists>opts. apply_options opt (Options_literal d) = Inr opts
            \<and> opts_HdlrWrappers r = opts_HdlrWrappers opts
            \<and> opts_SubWrappers r = opts_SubWrappers opts"
    if "newOptions d opt = Inr r" for r
    using that by (auto simp: newOptions_Inr with_defaults_frame)
  show "\<exists>r. newOptions d (map WrapHandler hs @ map WrapSubscriber ss) = Inr r
         \<and> opts_HdlrWrappers r = hs \<and> opts_SubWrappers r = ss"
    by (simp add: newOptions_eq apply_options_append apply_options_WrapHandler
        apply_options_WrapSubscriber with_defaults_frame)
       (simp add: Options_literal_def)
qed

theorem wrappers_from_options_and_from_init_witness:
  "serverWrappers (jaeger_init ''trace'' (recording_tracer recording_propagation) empty_component)
     ''trace'' = Some (NewHandlerWrapper (recording_tracer recording_propagation) None)
   \<and> (\<exists>r. newOptions (example_defaults :: (string list, string) Defaults)
             [WrapHandler (observed ''W1'')] = Inr r
         \<and> opts_HdlrWrappers r = [observed ''W1''] \<and> opts_SubWrappers r = [])"
  using wrappers_from_options_and_from_init
    [where k = "''trace''" and gt = "recording_tracer recording_propagation"
       and g = empty_component and w = "observed ''W1''" and sw = "\<lambda>next. next"
       and d = "example_defaults :: (string list, string) Defaults"
       and opt = "[WrapHandler (observed ''W1'')]" and hs = "[observed ''W1'']" and ss = "[]"]
  by (elim conjE) (simp add: empty_component_def)

section \<open>Package nacos\<close>

subsection \<open>Group names\<close>

lemma ReplaceAll_single:
  "ReplaceAll s [a] [b] = map (\<lambda>c. if c = a then b else c) s"
  by (induction s) auto

lemma resolvedGroup_map:
  "resolvedGroup g = map (\<lambda>c. if c = CHR ''/'' then CHR ''-'' else c) g"
  by (simp add: resolvedGroup_def ReplaceAll_single)

lemma resolvedGroup_no_slash: "CHR ''/'' \<notin> set (resolvedGroup g)"
  by (auto simp: resolvedGroup_map)

lemma resolvedGroup_fixed: "CHR ''/'' \<notin> set g \<Longrightarrow> resolvedGroup g = g"
  by (induction g) (auto simp: resolvedGroup_map)

lemma PublishConfig_param:
  assumes "ndc_client n = Some nc" and "Client nc = Some c"
  shows "\<exists>e. PublishConfig n key g val k =
           Inr (e, snd (sdk_PublishConfig c \<lparr>DataId = key, Group = resolvedGroup g, Content = val\<rparr> k))"
  using assms by (auto simp: PublishConfig_def split: prod.splits option.splits)

lemma GetRule_param:
  assumes "ndc_client n = Some nc" and "Client nc = Some c"
  shows "\<exists>r. GetRule n key opts k =
           Inr (r, snd (sdk_GetConfig c
             \<lparr>DataId = key,
               Group = resolvedGroup (cfg_Group (fold (\<lambda>opt t. opt t) opts \<lparr>cfg_Group = []\<rparr>)),
               Content = []\<rparr> k))"
  using assms by (auto simp: GetRule_def Let_def split: prod.splits option.splits)

text \<open>
  C9. \<open>resolvedGroup\<close> is idempotent, its result holds no \<open>/\<close> (every \<open>/\<close> has become
  \<open>-\<close>, and the empty string is kept), and so the parameter that \<open>PublishConfig\<close> and
  \<open>GetRule\<close> hand to the nacos client has a group without \<open>/\<close>: whenever the
  configuration has a client, the centre is in the state in which one call with such a
  parameter left it.
\<close>

theorem resolvedGroup_slash_free:
  "resolvedGroup (resolvedGroup g) = resolvedGroup g
   \<and> CHR ''/'' \<notin> set (resolvedGroup g)
   \<and> resolvedGroup g = map (\<lambda>c. if c = CHR ''/'' then CHR ''-'' else c) g
   \<and> resolvedGroup [] = []
   \<and> (\<forall>n nc c key val k. ndc_client n = Some nc \<longrightarrow> Client nc = Some c \<longrightarrow>
        (\<exists>p e. CHR ''/'' \<notin> set (Group p) \<and> Group p = resolvedGroup g
           \<and> PublishConfig n key g val k = Inr (e, snd (sdk_PublishConfig c p k))))
   \<and> (\<forall>n nc c key opts k. ndc_client n = Some nc \<longrightarrow> Client nc = Some c \<longrightarrow>
        (\<exists>p r. CHR ''/'' \<notin> set (Group p)
           \<and> GetRule n key opts k = Inr (r, snd (sdk_GetConfig c p k))))"
proof (intro conjI allI impI)
  show "resolvedGroup (resolvedGroup g) = resolvedGroup g"
    by (rule resolvedGroup_fixed) (rule resolvedGroup_no_slash)
  show "CHR ''/'' \<notin> set (resolvedGroup g)" by (rule resolvedGroup_no_slash)
  show "resolvedGroup g = map (\<lambda>c. if c = CHR ''/'' then CHR ''-'' else c) g"
    by (rule resolvedGroup_map)
  show "resolvedGroup [] = []" by (simp add: resolvedGroup_def)
next
  fix n :: "'k nacosDynamicConfiguration" and nc c key val k
  assume a: "ndc_client n = Some nc" "Client nc = Some c"
  define p where "p = \<lparr>DataId = key, Group = resolvedGroup g, Content = val\<rparr>"
  from PublishConfig_param [OF a, of key g val k] obtain e where
    "PublishConfig n key g val k = Inr (e, snd (sdk_PublishConfig c p k))"
    unfolding p_def ..
  moreover have "CHR ''/'' \<notin> set (Group p)" "Group p = resolvedGroup g"
    by (simp_all add: p_def resolvedGroup_no_slash)
  ultimately show "\<exists>p e. CHR ''/'' \<notin> set (Group p) \<and> Group p = resolvedGroup g
           \<and> PublishConfig n key g val k = Inr (e, snd (sdk_PublishConfig c p k))"
    by blast
next
  fix n :: "'k nacosDynamicConfiguration" and nc c key opts k
  assume a: "ndc_client n = Some nc" "Client nc = Some c"
  define p where "p = \<lparr>DataId = key,
     Group = resolvedGroup (cfg_Group (fold (\<lambda>opt t. opt t) opts \<lparr>cfg_Group = []\<rparr>)),
     Content = []\<rparr>"
  from GetRule_param [OF a, of key opts k] obtain r where
    "GetRule n key opts k = Inr (r, snd (sdk_GetConfig c p k))"
    unfolding p_def ..
  moreover have "CHR ''/'' \<notin> set (Group p)"
    by (simp add: p_def resolvedGroup_no_slash)
  ultimately show "\<exists>p r. CHR ''/'' \<notin> set (Group p)
           \<and> GetRule n key opts k = Inr (r, snd (sdk_GetConfig c p k))"
    by blast
qed

theorem resolvedGroup_slash_free_witness:
  "ndc_client example_config = Some example_client
   \<and> Client example_client = Some recording_client
   \<and> resolvedGroup ''micro/dev/a'' = ''micro-dev-a''
   \<and> PublishConfig example_config ''app'' ''micro/dev/a'' ''v1'' [] =
        Inr (None, [\<lparr>DataId = ''app'', Group = ''micro-dev-a'', Content = ''v1''\<rparr>])
   \<and> GetRule example_config ''app'' [\<lambda>t. t\<lparr>cfg_Group := ''micro/dev''\<rparr>] [] =
        Inr ((''content'', None), [\<lparr>DataId = ''app'', Group = ''micro-dev'', Content = []\<rparr>])"
  using resolvedGroup_slash_free [of "''micro/dev/a''"]
  by (simp add: example_config_def example_client_def recording_client_def Client_def
      PublishConfig_def GetRule_def resolvedGroup_def)

subsection \<open>Destroy\<close>

lemma stop_returns: "\<exists>b n'. stop n = Inr (b, n')"
  by (auto simp: stop_def onceClose_def)

lemma stop_again: "stop n = Inr (b, n') \<Longrightarrow> nc_exit n' \<Longrightarrow> stop n' = Inr (True, n')"
  by (simp add: stop_def)

lemma stop_closes:
  "stop n = Inr (b, n') \<Longrightarrow> nc_exit n \<or> \<not> nc_once n \<Longrightarrow> nc_exit n'"
  by (auto simp: stop_def onceClose_def split: if_splits)

lemma Close_returns: "\<exists>c'. Close c = Inr c'"
proof (cases c)
  case None
  then show ?thesis by (simp add: Close_def)
next
  case (Some nc)
  obtain b n' where "stop nc = Inr (b, n')" using stop_returns by blast
  with Some show ?thesis by (simp add: Close_def)
qed

lemma Close_Some:
  "Close (Some nc) = Inr c' \<Longrightarrow>
     \<exists>n'. c' = Some n' \<and> nc_client n' = None \<and> (nc_exit nc \<or> \<not> nc_once nc \<longrightarrow> nc_exit n')"
proof -
  assume a: "Close (Some nc) = Inr c'"
  obtain b n' where s: "stop nc = Inr (b, n')" using stop_returns by blast
  with a have "c' = Some (SetClient n' None)" by (simp add: Close_def)
  moreover have "nc_exit nc \<or> \<not> nc_once nc \<longrightarrow> nc_exit n'"
    using stop_closes [OF s] by blast
  ultimately show ?thesis by (simp add: SetClient_def)
qed

lemma Destroy_inv_init: "Destroy_inv n (Destroy_called n)"
  by (simp add: Destroy_inv_def Destroy_called_def)

lemma successors_cases:
  assumes "q \<in> set (successors p)"
  obtains "p_panic p = None" "Destroy_step p = Some q"
        | "p_panic p = None" "HandleClientRestart_step p = Some q"
  using assms by (auto simp: successors_def split: if_splits option.splits)

lemma Destroy_step_inv:
  assumes "Destroy_inv n p" and "Destroy_step p = Some q"
  shows "Destroy_inv n q \<and> remaining q < remaining p"
proof (cases "p_Destroy p")
  case At_close_done
  from assms(1) At_close_done
  have i: "p_panic p = None" "\<not> ndc_done (p_config p)" "ndc_wg (p_config p) = 1"
     "p_task_running p" "ndc_client (p_config p) = ndc_client n"
    by (simp_all add: Destroy_inv_def Let_def)
  from assms(2) At_close_done i(2)
  have q: "q = p\<lparr>p_config := (p_config p)\<lparr>ndc_done := True\<rparr>, p_Destroy := At_wg_Wait\<rparr>"
    by (simp add: Destroy_step_def Let_def)
  show ?thesis using i At_close_done by (simp add: q Destroy_inv_def remaining_def)
next
  case At_wg_Wait
  from assms(1) At_wg_Wait
  have i: "p_panic p = None" "ndc_done (p_config p)"
     "ndc_wg (p_config p) = (if p_task_running p then 1 else 0)"
     "ndc_client (p_config p) = ndc_client n"
    by (simp_all add: Destroy_inv_def Let_def)
  from assms(2) At_wg_Wait
  have w: "ndc_wg (p_config p) = 0" and q: "q = p\<lparr>p_Destroy := At_closeConfigs\<rparr>"
    by (simp_all add: Destroy_step_def Let_def split: if_splits)
  from w i(3) have "\<not> p_task_running p" by (simp split: if_splits)
  then show ?thesis using i w At_wg_Wait by (simp add: q Destroy_inv_def remaining_def)
next
  case At_closeConfigs
  obtain c' where c': "Close (ndc_client n) = Inr c'" using Close_returns by blast
  from assms(1) At_closeConfigs
  have i: "p_panic p = None" "ndc_done (p_config p)" "ndc_wg (p_config p) = 0"
     "\<not> p_task_running p" "ndc_client (p_config p) = ndc_client n"
    by (simp_all add: Destroy_inv_def Let_def)
  from assms(2) At_closeConfigs c' i(5)
  have q: "q = p\<lparr>p_config := (p_config p)\<lparr>ndc_client := None\<rparr>, p_detached := c',
                  p_Destroy := Destroy_returned\<rparr>"
    by (simp add: Destroy_step_def closeConfigs_def Let_def)
  show ?thesis using i c' At_closeConfigs
    by (simp add: q Destroy_inv_def remaining_def)
next
  case Destroy_returned
  with assms show ?thesis by (simp add: Destroy_step_def)
qed

lemma HandleClientRestart_step_inv:
  assumes "Destroy_inv n p" and "HandleClientRestart_step p = Some q"
  shows "Destroy_inv n q \<and> remaining q < remaining p"
proof -
  from assms(2) have r: "p_task_running p" "ndc_done (p_config p)"
    by (auto simp: HandleClientRestart_step_def Let_def split: if_splits)
  with assms(1) have pc: "p_Destroy p = At_wg_Wait" and wg: "ndc_wg (p_config p) = 1"
    and i: "p_panic p = None" "ndc_client (p_config p) = ndc_client n"
    by (cases "p_Destroy p"; simp add: Destroy_inv_def Let_def)+
  from assms(2) r wg
  have q: "q = p\<lparr>p_config := (p_config p)\<lparr>ndc_wg := 0\<rparr>, p_task_running := False\<rparr>"
    by (simp add: HandleClientRestart_step_def Let_def)
  show ?thesis using r pc i by (simp add: q Destroy_inv_def remaining_def)
qed

lemma Destroy_inv_step:
  assumes "Destroy_inv n p" and "q \<in> set (successors p)"
  shows "Destroy_inv n q \<and> remaining q < remaining p"
  using assms(2)
  by (rule successors_cases)
     (use assms(1) Destroy_step_inv HandleClientRestart_step_inv in blast)+

lemma Destroy_inv_reaches: "reaches (Destroy_called n) p \<Longrightarrow> Destroy_inv n p"
proof (induction "Destroy_called n" p rule: reaches.induct)
  case reaches_refl
  show ?case by (rule Destroy_inv_init)
next
  case (reaches_step q r)
  then show ?case using Destroy_inv_step by blast
qed

lemma Destroy_run: "reaches (Destroy_called n) (Destroy_end n)"
proof -
  obtain c' where c': "Close (ndc_client n) = Inr c'" using Close_returns by blast
  define p0 where "p0 = Destroy_called n"
  define p1 where "p1 = p0\<lparr>p_config := (p_config p0)\<lparr>ndc_done := True\<rparr>, p_Destroy := At_wg_Wait\<rparr>"
  define p2 where "p2 = p1\<lparr>p_config := (p_config p1)\<lparr>ndc_wg := 0\<rparr>, p_task_running := False\<rparr>"
  define p3 where "p3 = p2\<lparr>p_Destroy := At_closeConfigs\<rparr>"
  have s1: "Destroy_step p0 = Some p1"
    by (simp add: Destroy_step_def p0_def p1_def Destroy_called_def)
  have s2: "HandleClientRestart_step p1 = Some p2"
    by (simp add: HandleClientRestart_step_def p0_def p1_def p2_def Destroy_called_def)
  have s3: "Destroy_step p2 = Some p3"
    by (simp add: Destroy_step_def p0_def p1_def p2_def p3_def Destroy_called_def)
  have s4: "Destroy_step p3 = Some (Destroy_end n)"
    using c'
    by (simp add: Destroy_step_def closeConfigs_def p0_def p1_def p2_def p3_def
        Destroy_called_def Destroy_end_def)
  have np: "p_panic p0 = None" "p_panic p1 = None" "p_panic p2 = None" "p_panic p3 = None"
    by (simp_all add: p0_def p1_def p2_def p3_def Destroy_called_def)
  have "reaches p0 p0" by (rule reaches_refl)
  then have "reaches p0 p1"
    by (rule reaches_step) (simp add: successors_def np s1)
  then have "reaches p0 p2"
    by (rule reaches_step) (simp add: successors_def np s2)
  then have "reaches p0 p3"
    by (rule reaches_step) (simp add: successors_def np s3)
  then have "reaches p0 (Destroy_end n)"
    by (rule reaches_step) (simp add: successors_def np s4)
  then show ?thesis by (simp add: p0_def)
qed

lemma Destroy_inv_not_stuck:
  assumes "Destroy_inv n p" and "successors p = []"
  shows "p_Destroy p = Destroy_returned"
proof (rule ccontr)
  assume nr: "p_Destroy p \<noteq> Destroy_returned"
  from assms(1) have np: "p_panic p = None" by (simp add: Destroy_inv_def Let_def)
  with assms(2) have d: "Destroy_step p = None" and h: "HandleClientRestart_step p = None"
    by (simp_all add: successors_def split: option.splits)
  show False
  proof (cases "p_Destroy p")
    case At_close_done
    with d show False by (simp add: Destroy_step_def Let_def split: if_splits)
  next
    case At_wg_Wait
    with assms(1) have i: "ndc_done (p_config p)"
       "ndc_wg (p_config p) = (if p_task_running p then 1 else 0)"
      by (simp_all add: Destroy_inv_def Let_def)
    from d At_wg_Wait have "ndc_wg (p_config p) \<noteq> 0"
      by (simp add: Destroy_step_def Let_def split: if_splits)
    with i have "p_task_running p" by (simp split: if_splits)
    with i h show False by (simp add: HandleClientRestart_step_def Let_def split: if_splits)
  next
    case At_closeConfigs
    with d show False
      by (simp add: Destroy_step_def Let_def split: sum.splits prod.splits)
  next
    case Destroy_returned
    with nr show False by simp
  qed
qed

text \<open>
  Why once: the first statement of a second \<open>Destroy\<close> closes the closed channel. And
  after \<open>Destroy\<close> the configuration has no client, so \<open>PublishConfig\<close> and \<open>GetRule\<close>
  panic.
\<close>

lemma Destroy_again_panics:
  "ndc_done (p_config p) \<Longrightarrow> p_Destroy p = At_close_done \<Longrightarrow>
     Destroy_step p = Some (p\<lparr>p_panic := Some CloseOfClosedChannel\<rparr>)"
  by (simp add: Destroy_step_def)

lemma no_client_panics:
  "ndc_client n = None \<Longrightarrow> PublishConfig n key g val k = Inl NilDereference"
  "ndc_client n = None \<Longrightarrow> GetRule n key opts k = Inl NilDereference"
  by (simp_all add: PublishConfig_def GetRule_def Let_def)

text \<open>
  C7. \<open>Destroy\<close>, called once on a configuration with its background task, is safe in
  every schedule. In every state that the process reaches nothing has panicked (no
  channel is closed twice); once the first statement has run \<open>done\<close> is closed and
  \<open>IsAvailable\<close> is false; \<open>closeConfigs\<close> is reached only after the task has ended and
  the wait group is at zero; when \<open>Destroy\<close> has returned the client is detached, closed
  by one \<open>Close\<close>, its SDK client dropped and its channel \<open>exit\<close> closed; the process
  is never stuck before \<open>Destroy\<close> has returned, every step brings the end nearer, and
  the end is reached. \<open>stop\<close> never panics, and a second \<open>stop\<close> finds the channel
  closed and leaves the client as it is.
\<close>

theorem Destroy_once_is_safe:
  assumes "reaches (Destroy_called n) p"
  shows "p_panic p = None
    \<and> (p_Destroy p \<noteq> At_close_done \<longrightarrow> ndc_done (p_config p) \<and> \<not> IsAvailable (p_config p))
    \<and> (p_Destroy p = At_closeConfigs \<or> p_Destroy p = Destroy_returned \<longrightarrow>
          \<not> p_task_running p \<and> ndc_wg (p_config p) = 0)
    \<and> (p_Destroy p = Destroy_returned \<longrightarrow>
          ndc_client (p_config p) = None \<and> Close (ndc_client n) = Inr (p_detached p)
          \<and> (\<forall>c. ndc_client n = Some c \<longrightarrow>
                (\<exists>c'. p_detached p = Some c' \<and> nc_client c' = None
                    \<and> (nc_exit c \<or> \<not> nc_once c \<longrightarrow> nc_exit c'))))
    \<and> (successors p = [] \<longrightarrow> p_Destroy p = Destroy_returned)
    \<and> (\<forall>q \<in> set (successors p). remaining q < remaining p)
    \<and> reaches (Destroy_called n) (Destroy_end n)
    \<and> (\<forall>c. \<exists>b c'. stop c = Inr (b, c') \<and> (nc_exit c' \<longrightarrow> stop c' = Inr (True, c')))"
proof -
  from assms have inv: "Destroy_inv n p" by (rule Destroy_inv_reaches)
  have 1: "p_panic p = None" using inv by (simp add: Destroy_inv_def Let_def)
  have 2: "p_Destroy p \<noteq> At_close_done \<longrightarrow> ndc_done (p_config p) \<and> \<not> IsAvailable (p_config p)"
    using inv by (cases "p_Destroy p") (simp_all add: Destroy_inv_def Let_def IsAvailable_def)
  have 3: "p_Destroy p = At_closeConfigs \<or> p_Destroy p = Destroy_returned \<longrightarrow>
          \<not> p_task_running p \<and> ndc_wg (p_config p) = 0"
    using inv by (cases "p_Destroy p") (simp_all add: Destroy_inv_def Let_def)
  have 4: "p_Destroy p = Destroy_returned \<longrightarrow>
          ndc_client (p_config p) = None \<and> Close (ndc_client n) = Inr (p_detached p)
          \<and> (\<forall>c. ndc_client n = Some c \<longrightarrow>
                (\<exists>c'. p_detached p = Some c' \<and> nc_client c' = None
                    \<and> (nc_exit c \<or> \<not> nc_once c \<longrightarrow> nc_exit c')))"
  proof
    assume r: "p_Destroy p = Destroy_returned"
    with inv have a: "ndc_client (p_config p) = None" "Close (ndc_client n) = Inr (p_detached p)"
      by (simp_all add: Destroy_inv_def Let_def)
    have "\<exists>c'. p_detached p = Some c' \<and> nc_client c' = None
                    \<and> (nc_exit c \<or> \<not> nc_once c \<longrightarrow> nc_exit c')"
      if "ndc_client n = Some c" for c
      using a(2) that Close_Some [of c "p_detached p"] by simp
    with a show "ndc_client (p_config p) = None \<and> Close (ndc_client n) = Inr (p_detached p)
          \<and> (\<forall>c. ndc_client n = Some c \<longrightarrow>
                (\<exists>c'. p_detached p = Some c' \<and> nc_client c' = None
                    \<and> (nc_exit c \<or> \<not> nc_once c \<longrightarrow> nc_exit c')))" by blast
  qed
  have 5: "successors p = [] \<longrightarrow> p_Destroy p = Destroy_returned"
    using inv Destroy_inv_not_stuck by blast
  have 6: "\<forall>q \<in> set (successors p). remaining q < remaining p"
    using inv Destroy_inv_step by blast
  have 7: "\<forall>c::'k NacosClient. \<exists>b c'. stop c = Inr (b, c') \<and> (nc_exit c' \<longrightarrow> stop c' = Inr (True, c'))"
    using stop_returns stop_again by blast
  show ?thesis using 1 2 3 4 5 6 7 Destroy_run by blast
qed

theorem Destroy_once_is_safe_witness:
  "reaches (Destroy_called example_config) (Destroy_end example_config)
   \<and> p_panic (Destroy_end example_config) = None
   \<and> \<not> IsAvailable (p_config (Destroy_end example_config))
   \<and> \<not> p_task_running (Destroy_end example_config)
   \<and> ndc_client (p_config (Destroy_end example_config)) = None
   \<and> p_detached (Destroy_end example_config) =
        Some (example_client\<lparr>nc_client := None, nc_exit := True, nc_once := True\<rparr>)
   \<and> successors (Destroy_end example_config) = []"
proof -
  have r: "reaches (Destroy_called example_config) (Destroy_end example_config)"
    by (rule Destroy_run)
  have e: "p_Destroy (Destroy_end example_config) = Destroy_returned"
    by (simp add: Destroy_end_def)
  have a: "p_panic (Destroy_end example_config) = None
      \<and> \<not> IsAvailable (p_config (Destroy_end example_config))
      \<and> \<not> p_task_running (Destroy_end example_config)
      \<and> ndc_client (p_config (Destroy_end example_config)) = None"
    using Destroy_once_is_safe [OF r] e by (elim conjE) simp
  have c: "Close (Some example_client) =
             Inr (Some (example_client\<lparr>nc_client := None, nc_exit := True, nc_once := True\<rparr>))"
    by (simp add: Close_def stop_def onceClose_def SetClient_def example_client_def)
  have d: "p_detached (Destroy_end example_config) =
        Some (example_client\<lparr>nc_client := None, nc_exit := True, nc_once := True\<rparr>)"
    by (simp add: Destroy_end_def example_config_def c)
  have s: "successors (Destroy_end example_config) = []"
    by (simp add: successors_def Destroy_end_def Destroy_step_def HandleClientRestart_step_def)
  show ?thesis using r a d s by blast
qed

section \<open>Package grpc\<close>









end
